theory Spec2Isabelle
  imports Main "HOL-Library.AList" "HOL-Library.Word"
begin

section \<open>Errors and outcomes\<close>

text \<open>
  The script \<^verbatim>\<open>packages/firestore/scripts/bloom_filter_watch_test.ts\<close> declares two error
  classes, \<^verbatim>\<open>WatchError\<close> and \<^verbatim>\<open>TargetStateError\<close>, each carrying a message. The
  transport collaborator (\<^verbatim>\<open>Connection\<close>, \<^verbatim>\<open>Stream\<close>) may throw errors of its own;
  they are opaque to this layer and are modelled by \<open>TransportError\<close>.

  Some messages of \<^verbatim>\<open>WatchError\<close> are template literals that interpolate a target
  identifier. How JavaScript prints a number depends on its magnitude, so the message is
  kept as the template itself: a list of fragments, literal text or an interpolated number.

  A method call either returns, throws, or (for the two \<^verbatim>\<open>async\<close> methods) runs up to
  its single \<^verbatim>\<open>await\<close>, after which no statement of the method follows. All mutations a
  throwing method made before the throw stay in the object, so every method is a function
  from the state to an outcome \<^emph>\<open>and\<close> the state it leaves behind.
\<close>

datatype fragment = Text string | Number int

datatype error =
    WatchError "fragment list"
  | TargetStateError string
  | TransportError string

datatype outcome = Returned | Thrown error | Suspended

fun failed :: "outcome \<Rightarrow> bool" where
  "failed (Thrown e) = True"
| "failed Returned = False"
| "failed Suspended = False"

fun isTargetStateError :: "outcome \<Rightarrow> bool" where
  "isTargetStateError (Thrown (TargetStateError m)) = True"
| "isTargetStateError (Thrown (WatchError m)) = False"
| "isTargetStateError (Thrown (TransportError m)) = False"
| "isTargetStateError Returned = False"
| "isTargetStateError Suspended = False"

text \<open>Sequencing of two calls on the same object: an exception of the first skips the second.\<close>

definition andThen :: "outcome \<times> 's \<Rightarrow> ('s \<Rightarrow> outcome \<times> 's) \<Rightarrow> outcome \<times> 's" where
  "andThen r f = (case r of (Thrown e, s) \<Rightarrow> (Thrown e, s) | (_, s) \<Rightarrow> f s)"


section \<open>TargetState\<close>

text \<open>
  \<^verbatim>\<open>class TargetState\<close>: the private fields \<^verbatim>\<open>_added\<close>, \<^verbatim>\<open>_current\<close> and
  \<^verbatim>\<open>_resumeToken\<close> (a \<^verbatim>\<open>string | Uint8Array | null\<close>).
\<close>

datatype token = StringToken string | BytesToken "8 word list"

record TargetState =
  added :: bool
  current :: bool
  resumeToken :: "token option"

definition newTargetState :: TargetState where
  "newTargetState = \<lparr>added = False, current = False, resumeToken = None\<rparr>"

definition onAdded :: "TargetState \<Rightarrow> outcome \<times> TargetState" where
  "onAdded s =
     (if added s then (Thrown (TargetStateError ''onAdded() invoked when already added.''), s)
      else (Returned, s\<lparr>added := True, current := False\<rparr>))"

definition onRemoved :: "TargetState \<Rightarrow> outcome \<times> TargetState" where
  "onRemoved s =
     (if \<not> added s then (Thrown (TargetStateError ''onRemoved() invoked when not added.''), s)
      else (Returned, s\<lparr>added := False, current := False\<rparr>))"

definition onCurrent :: "TargetState \<Rightarrow> outcome \<times> TargetState" where
  "onCurrent s =
     (if \<not> added s then (Thrown (TargetStateError ''onCurrent() invoked when not added.''), s)
      else (Returned, s\<lparr>current := True\<rparr>))"

definition onReset :: "TargetState \<Rightarrow> outcome \<times> TargetState" where
  "onReset s =
     (if \<not> added s then (Thrown (TargetStateError ''onReset() invoked when not added.''), s)
      else (Returned, s\<lparr>current := False\<rparr>))"

definition onNoChange :: "token option \<Rightarrow> TargetState \<Rightarrow> outcome \<times> TargetState" where
  "onNoChange tok s =
     (if \<not> added s then (Thrown (TargetStateError ''onNoChange() invoked when not added.''), s)
      else if \<not> current s then
        (Thrown (TargetStateError ''onNoChange() invoked when not current.''), s)
      else (case tok of
              None \<Rightarrow> (Returned, s)
            | Some t \<Rightarrow> (Returned, s\<lparr>resumeToken := Some t\<rparr>)))"

text \<open>
  A driver that removes and re-adds the same instance \<open>n\<close> times in a row, stopping at the
  first exception.
\<close>

fun removeAddCycles :: "nat \<Rightarrow> TargetState \<Rightarrow> outcome \<times> TargetState" where
  "removeAddCycles 0 s = (Returned, s)"
| "removeAddCycles (Suc n) s =
     andThen (andThen (onRemoved s) onAdded) (removeAddCycles n)"


section \<open>The transport collaborator\<close>

text \<open>
  \<^verbatim>\<open>Connection.openStream\<close> returns a new \<^verbatim>\<open>Stream\<close> object on every call. The model
  numbers the stream objects in the order of their creation and records what this layer
  does to them: \<open>opened\<close> counts the \<^verbatim>\<open>openStream\<close> calls (so it is also the handle of
  the next stream), \<open>released\<close> lists the handles on which \<^verbatim>\<open>close()\<close> was called and
  \<open>sent\<close> the messages passed to \<^verbatim>\<open>send()\<close>, both in call order.
\<close>

type_synonym handle = nat

text \<open>
  The \<^verbatim>\<open>ListenRequest\<close> object literal built by \<^verbatim>\<open>addTarget\<close>, its nesting flattened:
  \<^verbatim>\<open>addTarget.targetId\<close>, \<^verbatim>\<open>addTarget.query.parent\<close>, the \<^verbatim>\<open>collectionId\<close> entries of
  \<^verbatim>\<open>structuredQuery.from\<close>, and \<^verbatim>\<open>fieldPath\<close>, \<^verbatim>\<open>op\<close> and \<^verbatim>\<open>stringValue\<close> of
  \<^verbatim>\<open>structuredQuery.where.fieldFilter\<close>.
\<close>

record ListenRequest =
  targetId :: int
  parent :: string
  fromCollectionIds :: "string list"
  fieldPath :: string
  op :: string
  stringValue :: string

record Connection =
  opened :: nat
  released :: "handle list"
  sent :: "(handle \<times> ListenRequest) list"

definition newConnection :: Connection where
  "newConnection = \<lparr>opened = 0, released = [], sent = []\<rparr>"


section \<open>WatchStream\<close>

text \<open>
  \<^verbatim>\<open>class WatchStream\<close>: \<^verbatim>\<open>_projectId\<close>, \<^verbatim>\<open>_stream\<close> (null until \<^verbatim>\<open>open()\<close> stores the
  channel), \<^verbatim>\<open>_closed\<close> and \<^verbatim>\<open>_targets\<close>. \<^verbatim>\<open>_targets\<close> is a JavaScript \<^verbatim>\<open>Map\<close>, which
  iterates in insertion order: an association list with \<open>map_of\<close> for \<^verbatim>\<open>get\<close>/\<^verbatim>\<open>has\<close>
  and \<open>AList.update\<close> for \<^verbatim>\<open>set\<close>. A TargetState object enters the map in \<^verbatim>\<open>addTarget\<close>
  only, under a key that is not yet present, and is never stored anywhere else; so the
  object is identified by its key, and a mutation of the object is an update of the entry.
  The settlement of the promises \<^verbatim>\<open>deferred\<close> and \<^verbatim>\<open>_closedDeferred\<close> by the channel's
  callbacks is outside the model: an \<^verbatim>\<open>async\<close> method that reaches its \<^verbatim>\<open>await\<close> has the
  outcome \<open>Suspended\<close>.
\<close>

record WatchStream =
  projectId :: string
  stream :: "handle option"
  closed :: bool
  targets :: "(int \<times> TargetState) list"

definition newWatchStream :: "string \<Rightarrow> WatchStream" where
  "newWatchStream p = \<lparr>projectId = p, stream = None, closed = False, targets = []\<rparr>"

text \<open>
  \<^verbatim>\<open>open()\<close>. The argument \<open>reg\<close> says whether one of the registrations \<^verbatim>\<open>onOpen\<close>,
  \<^verbatim>\<open>onClose\<close>, \<^verbatim>\<open>onMessage\<close> inside the \<^verbatim>\<open>try\<close> block throws (and what); the \<^verbatim>\<open>catch\<close>
  block then closes the stream just obtained and rethrows.
\<close>

definition ws_open ::
  "error option \<Rightarrow> WatchStream \<times> Connection \<Rightarrow> outcome \<times> (WatchStream \<times> Connection)" where
  "ws_open reg w =
     (case w of (ws, c) \<Rightarrow>
        if stream ws \<noteq> None then (Thrown (WatchError [Text ''open() may only be called once'']), w)
        else if closed ws then
          (Thrown (WatchError [Text ''open() may not be called after close()'']), w)
        else
          (let h = opened c; c1 = c\<lparr>opened := Suc h\<rparr> in
           case reg of
             Some e \<Rightarrow> (Thrown e, (ws, c1\<lparr>released := released c1 @ [h]\<rparr>))
           | None \<Rightarrow> (Suspended, (ws\<lparr>stream := Some h\<rparr>, c1))))"

definition ws_close :: "WatchStream \<times> Connection \<Rightarrow> outcome \<times> (WatchStream \<times> Connection)" where
  "ws_close w =
     (case w of (ws, c) \<Rightarrow>
        if closed ws then (Returned, w)
        else
          (let ws1 = ws\<lparr>closed := True\<rparr> in
           case stream ws1 of
             None \<Rightarrow> (Returned, (ws1, c))
           | Some h \<Rightarrow> (Suspended, (ws1, c\<lparr>released := released c @ [h]\<rparr>))))"

text \<open>
  \<^verbatim>\<open>addTarget\<close>. The argument \<open>snd_err\<close> says whether \<^verbatim>\<open>this._stream.send(target)\<close>
  throws; the statement \<^verbatim>\<open>this._targets.set(...)\<close> follows the send.
\<close>

definition addTargetRequest :: "string \<Rightarrow> int \<Rightarrow> string \<Rightarrow> string \<Rightarrow> string \<Rightarrow> ListenRequest" where
  "addTargetRequest p tid collectionId keyFilter valueFilter =
     \<lparr>targetId = tid,
      parent = ''projects/'' @ p @ ''/databases/(default)/documents'',
      fromCollectionIds = [collectionId],
      fieldPath = keyFilter,
      op = ''EQUAL'',
      stringValue = valueFilter\<rparr>"

definition addTarget ::
  "error option \<Rightarrow> int \<Rightarrow> string \<Rightarrow> string \<Rightarrow> string \<Rightarrow>
   WatchStream \<times> Connection \<Rightarrow> outcome \<times> (WatchStream \<times> Connection)" where
  "addTarget snd_err tid collectionId keyFilter valueFilter w =
     (case w of (ws, c) \<Rightarrow>
        case stream ws of
          None \<Rightarrow> (Thrown (WatchError [Text ''open() must be called before addTarget()'']), w)
        | Some h \<Rightarrow>
            if closed ws then
              (Thrown (WatchError [Text ''addTarget() may not be called after close()'']), w)
            else if map_of (targets ws) tid \<noteq> None then
              (Thrown (WatchError [Text ''targetId '', Number tid, Text '' is already used'']), w)
            else
              (let target = addTargetRequest (projectId ws) tid collectionId keyFilter valueFilter in
               case snd_err of
                 Some e \<Rightarrow> (Thrown e, w)
               | None \<Rightarrow>
                   (Returned,
                    (ws\<lparr>targets := AList.update tid newTargetState (targets ws)\<rparr>,
                     c\<lparr>sent := sent c @ [(h, target)]\<rparr>))))"


section \<open>Dispatch of inbound messages\<close>

text \<open>
  The fields of a \<^verbatim>\<open>TargetChange\<close> that the script reads; all three are optional in the
  wire format. \<^verbatim>\<open>targetChangeType\<close> arrives as a string.
\<close>

record TargetChange =
  targetIds :: "int list option"
  targetChangeType :: "string option"
  tc_resumeToken :: "token option"

text \<open>
  A \<^verbatim>\<open>ListenResponse\<close>: which of the five payloads are present. The script never looks
  inside the four payloads other than \<^verbatim>\<open>targetChange\<close>.
\<close>

record ListenResponse =
  targetChange :: "TargetChange option"
  documentChange :: "unit option"
  documentRemove :: "unit option"
  documentDelete :: "unit option"
  filter_ :: "unit option"

text \<open>
  \<^verbatim>\<open>Array.from(targetIds ?? [], targetId => ...)\<close>: the identifiers are looked up from left
  to right and the first unknown one throws. The result lists the resolved objects, each
  denoted by its key.
\<close>

fun resolveTargetIds :: "(int \<times> TargetState) list \<Rightarrow> int list \<Rightarrow> error + int list" where
  "resolveTargetIds T [] = Inr []"
| "resolveTargetIds T (i # is) =
     (case map_of T i of
        None \<Rightarrow> Inl (WatchError [Text ''TargetChange specifies an unknown targetId: '', Number i])
      | Some s \<Rightarrow>
          (case resolveTargetIds T is of
             Inl e \<Rightarrow> Inl e
           | Inr rs \<Rightarrow> Inr (i # rs)))"

definition targetStatesForTargetChange :: "TargetChange \<Rightarrow> WatchStream \<Rightarrow> error + int list" where
  "targetStatesForTargetChange tc ws =
     (case resolveTargetIds (targets ws) (case targetIds tc of None \<Rightarrow> [] | Some ids \<Rightarrow> ids) of
        Inl e \<Rightarrow> Inl e
      | Inr targetStates \<Rightarrow>
          if length targetStates > 0 then Inr targetStates
          else Inr (map fst (targets ws)))"

text \<open>The \<^verbatim>\<open>switch\<close> in the body of the loop of \<^verbatim>\<open>_onTargetChange\<close>.\<close>

definition applyTargetChange :: "TargetChange \<Rightarrow> TargetState \<Rightarrow> outcome \<times> TargetState" where
  "applyTargetChange tc s =
     (case targetChangeType tc of
        None \<Rightarrow> (Thrown (WatchError [Text ''unknown targetChangeType: '', Text ''undefined'']), s)
      | Some ty \<Rightarrow>
          if ty = ''ADD'' then onAdded s
          else if ty = ''REMOVE'' then onRemoved s
          else if ty = ''CURRENT'' then onCurrent s
          else if ty = ''RESET'' then onReset s
          else if ty = ''NO_CHANGE'' then onNoChange (tc_resumeToken tc) s
          else (Thrown (WatchError [Text ''unknown targetChangeType: '', Text ty]), s))"

text \<open>
  The \<^verbatim>\<open>for ... of\<close> loop over the resolved objects. An object that is not in the map
  cannot be among them (they were all read from the map); the model skips such a key.
\<close>

fun forTargetStates ::
  "TargetChange \<Rightarrow> int list \<Rightarrow> (int \<times> TargetState) list \<Rightarrow> outcome \<times> (int \<times> TargetState) list" where
  "forTargetStates tc [] T = (Returned, T)"
| "forTargetStates tc (r # rs) T =
     (case map_of T r of
        None \<Rightarrow> forTargetStates tc rs T
      | Some s \<Rightarrow>
          (case applyTargetChange tc s of
             (Thrown e, s') \<Rightarrow> (Thrown e, AList.update r s' T)
           | (_, s') \<Rightarrow> forTargetStates tc rs (AList.update r s' T)))"

definition onTargetChange :: "TargetChange \<Rightarrow> WatchStream \<Rightarrow> outcome \<times> WatchStream" where
  "onTargetChange tc ws =
     (case targetStatesForTargetChange tc ws of
        Inl e \<Rightarrow> (Thrown e, ws)
      | Inr targetStates \<Rightarrow>
          (case forTargetStates tc targetStates (targets ws) of
             (r, T) \<Rightarrow> (r, ws\<lparr>targets := T\<rparr>)))"

definition onMessageReceived :: "ListenResponse \<Rightarrow> WatchStream \<Rightarrow> outcome \<times> WatchStream" where
  "onMessageReceived msg ws =
     (case targetChange msg of
        Some tc \<Rightarrow> onTargetChange tc ws
      | None \<Rightarrow> (Returned, ws))"

text \<open>
  The calls that reach a WatchStream and its channel, and a run of such calls. A caller may
  catch an exception and go on, so a run performs every call and collects the outcomes.
\<close>

datatype call =
    Open "error option"
  | Close
  | AddTarget "error option" int string string string
  | Message ListenResponse

fun perform :: "call \<Rightarrow> WatchStream \<times> Connection \<Rightarrow> outcome \<times> (WatchStream \<times> Connection)" where
  "perform (Open reg) w = ws_open reg w"
| "perform Close w = ws_close w"
| "perform (AddTarget e tid coll k v) w = addTarget e tid coll k v w"
| "perform (Message msg) (ws, c) = (case onMessageReceived msg ws of (r, ws') \<Rightarrow> (r, (ws', c)))"

fun run :: "call list \<Rightarrow> WatchStream \<times> Connection \<Rightarrow> WatchStream \<times> Connection" where
  "run [] w = w"
| "run (x # xs) w = run xs (snd (perform x w))"

text \<open>
  The number of \<^verbatim>\<open>open()\<close> calls of a run that get past the guards and the registration
  of the callbacks, that is, that do not throw.
\<close>

fun isOpen :: "call \<Rightarrow> bool" where
  "isOpen (Open reg) = True"
| "isOpen Close = False"
| "isOpen (AddTarget e tid coll k v) = False"
| "isOpen (Message msg) = False"

fun successfulOpens :: "call list \<Rightarrow> WatchStream \<times> Connection \<Rightarrow> nat" where
  "successfulOpens [] w = 0"
| "successfulOpens (x # xs) w =
     (if isOpen x \<and> \<not> failed (fst (perform x w)) then 1 else 0) +
     successfulOpens xs (snd (perform x w))"

text \<open>
  The invariant of a WatchStream and its connection that the calls maintain: no stream was
  closed twice, only streams that were handed out were closed, and the stream stored in
  \<^verbatim>\<open>_stream\<close> was handed out and is closed only if \<^verbatim>\<open>_closed\<close> is set.
\<close>

definition channelInv :: "WatchStream \<times> Connection \<Rightarrow> bool" where
  "channelInv w =
     (case w of (ws, c) \<Rightarrow>
        distinct (released c) \<and> list_all (\<lambda>h. h < opened c) (released c) \<and>
        (case stream ws of
           None \<Rightarrow> True
         | Some h \<Rightarrow> h < opened c \<and> (closed ws \<or> h \<notin> set (released c))))"


section \<open>BloomFilter\<close>

text \<open>
  The class \<^verbatim>\<open>BloomFilter\<close> is imported by the unit test
  (\<^verbatim>\<open>src/remote/bloom_filter\<close>) and is not among the sources at hand; only its test is.
  The definitions of this section follow the specification (its sections 3 and 4.1). The
  test fixes the order of the constructor's arguments: bitmap, padding, hash count.
\<close>

text \<open>
  Modelled from the spec: the constructor's two errors, \<open>InvalidPadding\<close> and
  \<open>InvalidHashCount\<close>, each naming the offending value.
\<close>

datatype bloomError = InvalidPadding int | InvalidHashCount int

fun isInvalidPadding :: "bloomError + 'a \<Rightarrow> bool" where
  "isInvalidPadding (Inl (InvalidPadding p)) = True"
| "isInvalidPadding (Inl (InvalidHashCount n)) = False"
| "isInvalidPadding (Inr x) = False"

fun isInvalidHashCount :: "bloomError + 'a \<Rightarrow> bool" where
  "isInvalidHashCount (Inl (InvalidHashCount n)) = True"
| "isInvalidHashCount (Inl (InvalidPadding p)) = False"
| "isInvalidHashCount (Inr x) = False"

text \<open>
  Modelled from the spec: the fields of the missing class \<^verbatim>\<open>BloomFilter\<close>, an immutable
  value with the backing bitmap, the padding, the hash count and the derived bit count.
\<close>

record BloomFilter =
  bits :: "8 word list"
  padding :: int
  hashCount :: int
  bitCount :: int

text \<open>
  Modelled from the spec: the missing constructor of \<^verbatim>\<open>BloomFilter\<close>. Validation in the
  order of section 4.1: for an empty bitmap the padding must be 0 and the hash count at
  least 0; for a non-empty one the padding must lie in 0..7 and the hash count be at least
  1; within each case the padding is checked first. The bit count is
  \<open>bits.length * 8 - padding\<close>, and 0 for an empty bitmap.
\<close>

definition newBloomFilter :: "8 word list \<Rightarrow> int \<Rightarrow> int \<Rightarrow> bloomError + BloomFilter" where
  "newBloomFilter bs pad hc =
     (if length bs = 0 then
        (if pad \<noteq> 0 then Inl (InvalidPadding pad)
         else if hc < 0 then Inl (InvalidHashCount hc)
         else Inr \<lparr>bits = bs, padding = pad, hashCount = hc, bitCount = 0\<rparr>)
      else
        (if pad < 0 \<or> 7 < pad then Inl (InvalidPadding pad)
         else if hc < 1 then Inl (InvalidHashCount hc)
         else Inr \<lparr>bits = bs, padding = pad, hashCount = hc,
                   bitCount = int (length bs) * 8 - pad\<rparr>))"

text \<open>
  Modelled from the spec: the encoding of a key of the missing method \<^verbatim>\<open>mightContain\<close>.
  Membership is defined over byte strings; a key is held as the list of its UTF-8 bytes
  (the characters of a \<open>string\<close> are bytes).
\<close>

definition encodeKey :: "string \<Rightarrow> 8 word list" where
  "encodeKey key = map of_char key"

text \<open>
  Modelled from the spec: the probe position of the missing method \<^verbatim>\<open>mightContain\<close>,
  \<open>p_i = (h1 + i * h2) mod bitCount\<close> for the two 64-bit halves of the hash. The sum is a
  64-bit integer itself: it wraps around, and a value that is negative in two's complement
  is normalised by reading the 64 bits as unsigned before the remainder is taken, which
  lands in \<open>[0, bitCount)\<close>.
\<close>

definition bitIndex :: "BloomFilter \<Rightarrow> 64 word \<Rightarrow> 64 word \<Rightarrow> nat \<Rightarrow> nat" where
  "bitIndex bf h1 h2 i = unat (h1 + of_nat i * h2) mod nat (bitCount bf)"

text \<open>
  Modelled from the spec: the bit test of the missing method \<^verbatim>\<open>mightContain\<close>, byte index
  \<open>p / 8\<close> and bit index \<open>p % 8\<close> within that byte.
\<close>

definition isBitSet :: "BloomFilter \<Rightarrow> nat \<Rightarrow> bool" where
  "isBitSet bf p = (p div 8 < length (bits bf) \<and> bit (bits bf ! (p div 8)) (p mod 8))"

text \<open>
  Modelled from the spec: the probing loop of the missing method \<^verbatim>\<open>mightContain\<close>, for
  \<open>i\<close> in \<open>[0, hashCount)\<close>, false on the first unset probe.
\<close>

fun probesFrom :: "BloomFilter \<Rightarrow> 64 word \<Rightarrow> 64 word \<Rightarrow> nat \<Rightarrow> nat \<Rightarrow> bool" where
  "probesFrom bf h1 h2 i 0 = True"
| "probesFrom bf h1 h2 i (Suc n) =
     (if isBitSet bf (bitIndex bf h1 h2 i) then probesFrom bf h1 h2 (Suc i) n else False)"

text \<open>
  Modelled from the spec: the missing method \<^verbatim>\<open>mightContain\<close>. It returns false when the
  bit count is 0 and otherwise probes the bitmap. The spec does not name the 128-bit hash
  function; it is the parameter \<open>hash\<close>, from the bytes of the key to the halves
  \<open>h1\<close> and \<open>h2\<close>.
\<close>

definition mightContain ::
  "(8 word list \<Rightarrow> 64 word \<times> 64 word) \<Rightarrow> BloomFilter \<Rightarrow> string \<Rightarrow> bool" where
  "mightContain hash bf key =
     (if bitCount bf = 0 then False
      else (case hash (encodeKey key) of
              (h1, h2) \<Rightarrow> probesFrom bf h1 h2 0 (nat (hashCount bf))))"


section \<open>Properties of TargetState\<close>

lemmas transition_defs = onAdded_def onRemoved_def onCurrent_def onReset_def onNoChange_def

lemma removeAddCycles_added:
  "added s \<Longrightarrow>
   removeAddCycles n s = (Returned, if n = 0 then s else s\<lparr>added := True, current := False\<rparr>)"
proof (induction n arbitrary: s)
  case 0
  show ?case by simp
next
  case (Suc n)
  let ?t = "s\<lparr>added := True, current := False\<rparr>"
  have step: "andThen (onRemoved s) onAdded = (Returned, ?t)"
    using Suc.prems by (simp add: andThen_def onRemoved_def onAdded_def)
  have "added ?t" by simp
  from Suc.IH [OF this] have "removeAddCycles n ?t = (Returned, ?t)"
    by (cases n) simp_all
  with step show ?case by (simp add: andThen_def)
qed

text \<open>
  Claim C3. Every transition of a TargetState throws exactly when its guard fails, and
  otherwise has the effect of the transition table: \<open>onAdded\<close> throws iff the target is
  already added and otherwise sets \<open>added\<close> and clears \<open>current\<close>; \<open>onRemoved\<close>,
  \<open>onCurrent\<close> and \<open>onReset\<close> throw iff the target is not added and otherwise clear both
  flags, set \<open>current\<close>, clear \<open>current\<close>; \<open>onNoChange\<close> throws iff the target is not
  added or not current and otherwise stores the token when one is present. The error is a
  \<open>TargetStateError\<close> in every case.
\<close>

theorem TargetState_transitions:
  "(failed (fst (onAdded s)) \<longleftrightarrow> added s) \<and>
   (failed (fst (onRemoved s)) \<longleftrightarrow> \<not> added s) \<and>
   (failed (fst (onCurrent s)) \<longleftrightarrow> \<not> added s) \<and>
   (failed (fst (onReset s)) \<longleftrightarrow> \<not> added s) \<and>
   (failed (fst (onNoChange tok s)) \<longleftrightarrow> \<not> added s \<or> \<not> current s) \<and>
   (isTargetStateError (fst (onAdded s)) \<longleftrightarrow> added s) \<and>
   (isTargetStateError (fst (onRemoved s)) \<longleftrightarrow> \<not> added s) \<and>
   (isTargetStateError (fst (onCurrent s)) \<longleftrightarrow> \<not> added s) \<and>
   (isTargetStateError (fst (onReset s)) \<longleftrightarrow> \<not> added s) \<and>
   (isTargetStateError (fst (onNoChange tok s)) \<longleftrightarrow> \<not> added s \<or> \<not> current s) \<and>
   (\<not> added s \<longrightarrow> onAdded s = (Returned, s\<lparr>added := True, current := False\<rparr>)) \<and>
   (added s \<longrightarrow> onRemoved s = (Returned, s\<lparr>added := False, current := False\<rparr>)) \<and>
   (added s \<longrightarrow> onCurrent s = (Returned, s\<lparr>current := True\<rparr>)) \<and>
   (added s \<longrightarrow> onReset s = (Returned, s\<lparr>current := False\<rparr>)) \<and>
   (added s \<and> current s \<longrightarrow>
      onNoChange tok s =
        (Returned, case tok of None \<Rightarrow> s | Some t \<Rightarrow> s\<lparr>resumeToken := Some t\<rparr>))"
  by (simp add: transition_defs split: option.split)

theorem TargetState_transitions_witness:
  "onAdded newTargetState = (Returned, \<lparr>added = True, current = False, resumeToken = None\<rparr>) \<and>
   failed (fst (onAdded \<lparr>added = True, current = False, resumeToken = None\<rparr>)) \<and>
   failed (fst (onNoChange (Some (StringToken ''t''))
                  \<lparr>added = True, current = False, resumeToken = None\<rparr>)) \<and>
   failed (fst (onCurrent newTargetState)) \<and>
   onCurrent \<lparr>added = True, current = False, resumeToken = None\<rparr> =
     (Returned, \<lparr>added = True, current = True, resumeToken = None\<rparr>) \<and>
   onNoChange (Some (StringToken ''t'')) \<lparr>added = True, current = True, resumeToken = None\<rparr> =
     (Returned, \<lparr>added = True, current = True, resumeToken = Some (StringToken ''t'')\<rparr>) \<and>
   onRemoved \<lparr>added = True, current = True, resumeToken = None\<rparr> = (Returned, newTargetState)"
  using TargetState_transitions [of newTargetState "Some (StringToken ''t'')"]
        TargetState_transitions
          [of "\<lparr>added = True, current = False, resumeToken = None\<rparr>" "Some (StringToken ''t'')"]
        TargetState_transitions
          [of "\<lparr>added = True, current = True, resumeToken = None\<rparr>" "Some (StringToken ''t'')"]
  by (simp add: newTargetState_def)

text \<open>
  Claim C9. From the Added state, \<open>onRemoved\<close> leads to a state equivalent to NotAdded: both
  flags are cleared, every transition has the outcome it has on a freshly constructed
  TargetState, and in particular a following \<open>onAdded\<close> succeeds. The remove/add cycle can
  be repeated any number of times on the same instance without an error.
\<close>

theorem TargetState_cycle_reusable:
  "added s \<Longrightarrow>
   fst (onRemoved s) = Returned \<and>
   \<not> added (snd (onRemoved s)) \<and> \<not> current (snd (onRemoved s)) \<and>
   snd (onRemoved s) = newTargetState\<lparr>resumeToken := resumeToken s\<rparr> \<and>
   fst (onAdded (snd (onRemoved s))) = fst (onAdded newTargetState) \<and>
   fst (onRemoved (snd (onRemoved s))) = fst (onRemoved newTargetState) \<and>
   fst (onCurrent (snd (onRemoved s))) = fst (onCurrent newTargetState) \<and>
   fst (onReset (snd (onRemoved s))) = fst (onReset newTargetState) \<and>
   fst (onNoChange tok (snd (onRemoved s))) = fst (onNoChange tok newTargetState) \<and>
   fst (onAdded (snd (onRemoved s))) = Returned \<and>
   added (snd (onAdded (snd (onRemoved s)))) \<and>
   fst (removeAddCycles n s) = Returned \<and>
   added (snd (removeAddCycles n s))"
  by (simp add: removeAddCycles_added) (simp add: transition_defs newTargetState_def)

theorem TargetState_cycle_reusable_witness:
  "added \<lparr>added = True, current = True, resumeToken = None\<rparr> \<and>
   onAdded (snd (onRemoved \<lparr>added = True, current = True, resumeToken = None\<rparr>)) =
     (Returned, \<lparr>added = True, current = False, resumeToken = None\<rparr>) \<and>
   removeAddCycles 3 \<lparr>added = True, current = True, resumeToken = None\<rparr> =
     (Returned, \<lparr>added = True, current = False, resumeToken = None\<rparr>)"
  using TargetState_cycle_reusable
          [of "\<lparr>added = True, current = True, resumeToken = None\<rparr>" None 3]
  by (simp add: transition_defs andThen_def numeral_3_eq_3 newTargetState_def)

text \<open>
  Claim C10. The field \<open>resumeToken\<close> changes only in a successful \<open>onNoChange\<close> that
  carries a token, and then becomes that token. \<open>onAdded\<close>, \<open>onRemoved\<close>, \<open>onCurrent\<close>,
  \<open>onReset\<close>, \<open>onNoChange\<close> without a token and every throwing transition leave it as it
  was; hence a recorded token survives any number of remove/add cycles.
\<close>

theorem resumeToken_frame:
  "resumeToken (snd (onAdded s)) = resumeToken s \<and>
   resumeToken (snd (onRemoved s)) = resumeToken s \<and>
   resumeToken (snd (onCurrent s)) = resumeToken s \<and>
   resumeToken (snd (onReset s)) = resumeToken s \<and>
   resumeToken (snd (onNoChange None s)) = resumeToken s \<and>
   (failed (fst (onNoChange tok s)) \<longrightarrow> resumeToken (snd (onNoChange tok s)) = resumeToken s) \<and>
   (failed (fst (onAdded s)) \<longrightarrow> snd (onAdded s) = s) \<and>
   (failed (fst (onRemoved s)) \<longrightarrow> snd (onRemoved s) = s) \<and>
   (failed (fst (onCurrent s)) \<longrightarrow> snd (onCurrent s) = s) \<and>
   (failed (fst (onReset s)) \<longrightarrow> snd (onReset s) = s) \<and>
   (failed (fst (onNoChange tok s)) \<longrightarrow> snd (onNoChange tok s) = s) \<and>
   (\<not> failed (fst (onNoChange (Some t) s)) \<longrightarrow>
      resumeToken (snd (onNoChange (Some t) s)) = Some t) \<and>
   (resumeToken (snd (onNoChange tok s)) \<noteq> resumeToken s \<longrightarrow>
      \<not> failed (fst (onNoChange tok s)) \<and> tok \<noteq> None) \<and>
   (added s \<longrightarrow> resumeToken (snd (removeAddCycles n s)) = resumeToken s)"
  by (simp add: removeAddCycles_added) (simp add: transition_defs split: option.split)

theorem resumeToken_frame_witness:
  "resumeToken (snd (onNoChange (Some (StringToken ''a''))
      \<lparr>added = True, current = True, resumeToken = Some (StringToken ''b'')\<rparr>)) =
     Some (StringToken ''a'') \<and>
   failed (fst (onNoChange (Some (StringToken ''a''))
      \<lparr>added = True, current = False, resumeToken = Some (StringToken ''b'')\<rparr>)) \<and>
   resumeToken (snd (onNoChange (Some (StringToken ''a''))
      \<lparr>added = True, current = False, resumeToken = Some (StringToken ''b'')\<rparr>)) =
     Some (StringToken ''b'') \<and>
   resumeToken (snd (removeAddCycles 2
      \<lparr>added = True, current = True, resumeToken = Some (StringToken ''b'')\<rparr>)) =
     Some (StringToken ''b'')"
  using resumeToken_frame
          [of "\<lparr>added = True, current = True, resumeToken = Some (StringToken ''b'')\<rparr>"
              "Some (StringToken ''a'')" "StringToken ''a''" 2]
        resumeToken_frame
          [of "\<lparr>added = True, current = False, resumeToken = Some (StringToken ''b'')\<rparr>"
              "Some (StringToken ''a'')" "StringToken ''a''" 2]
  by (simp add: transition_defs)

section \<open>Properties of WatchStream\<close>


lemma applyTargetChange_not_Suspended: "fst (applyTargetChange tc s) \<noteq> Suspended"
  by (simp add: applyTargetChange_def transition_defs split: option.split)

lemma update_middle:
  "i \<notin> fst ` set P \<Longrightarrow> AList.update i v (P @ (i, s) # Q) = P @ (i, v) # Q"
  by (induction P) (auto)

lemma map_of_middle:
  "i \<notin> fst ` set P \<Longrightarrow> map_of (P @ (i, s) # Q) i = Some s"
  by (induction P) auto

lemma forTargetStates_all_ok:
  "distinct (map fst (P @ Q)) \<Longrightarrow>
   \<forall>(i, s) \<in> set Q. fst (applyTargetChange tc s) = Returned \<Longrightarrow>
   forTargetStates tc (map fst Q) (P @ Q) =
     (Returned, P @ map (\<lambda>(i, s). (i, snd (applyTargetChange tc s))) Q)"
proof (induction Q arbitrary: P)
  case Nil
  show ?case by simp
next
  case (Cons x Q)
  obtain i s where x: "x = (i, s)" by (cases x)
  obtain s' where ap: "applyTargetChange tc s = (Returned, s')"
    using Cons.prems(2) x by (cases "applyTargetChange tc s") auto
  have notin: "i \<notin> fst ` set P" using Cons.prems(1) x by auto
  have d: "distinct (map fst ((P @ [(i, s')]) @ Q))" using Cons.prems(1) x by auto
  have rest: "\<forall>(i, s) \<in> set Q. fst (applyTargetChange tc s) = Returned"
    using Cons.prems(2) by auto
  from Cons.IH [OF d rest] show ?case
    using x ap notin by (simp add: map_of_middle update_middle del: map_of_append)
qed

lemma forTargetStates_some_fail:
  "distinct (map fst (P @ Q)) \<Longrightarrow>
   \<exists>(i, s) \<in> set Q. fst (applyTargetChange tc s) \<noteq> Returned \<Longrightarrow>
   failed (fst (forTargetStates tc (map fst Q) (P @ Q)))"
proof (induction Q arbitrary: P)
  case Nil
  then show ?case by simp
next
  case (Cons x Q)
  obtain i s where x: "x = (i, s)" by (cases x)
  have notin: "i \<notin> fst ` set P" using Cons.prems(1) x by auto
  obtain r s' where ap: "applyTargetChange tc s = (r, s')" by (cases "applyTargetChange tc s")
  have rns: "r \<noteq> Suspended" using applyTargetChange_not_Suspended [of tc s] ap by simp
  show ?case
  proof (cases r)
    case (Thrown e)
    then show ?thesis using x ap notin by (simp add: map_of_middle update_middle del: map_of_append)
  next
    case Returned
    have d: "distinct (map fst ((P @ [(i, s')]) @ Q))" using Cons.prems(1) x by auto
    have "\<exists>(i, s) \<in> set Q. fst (applyTargetChange tc s) \<noteq> Returned"
      using Cons.prems(2) x ap Returned by auto
    from Cons.IH [OF d this] show ?thesis
      using x ap notin Returned by (simp add: map_of_middle update_middle del: map_of_append)
  next
    case Suspended
    with rns show ?thesis by simp
  qed
qed

lemma resolveTargetIds_unknown:
  "\<exists>i \<in> set ids. map_of T i = None \<Longrightarrow> \<exists>m. resolveTargetIds T ids = Inl (WatchError m)"
proof (induction ids)
  case Nil
  then show ?case by simp
next
  case (Cons a ids)
  show ?case
  proof (cases "map_of T a")
    case None
    then show ?thesis by simp
  next
    case (Some s)
    with Cons.prems have "\<exists>i \<in> set ids. map_of T i = None" by auto
    from Cons.IH [OF this] obtain m where "resolveTargetIds T ids = Inl (WatchError m)" ..
    with Some show ?thesis by simp
  qed
qed

lemma resolveTargetIds_known:
  "\<forall>i \<in> set ids. map_of T i \<noteq> None \<Longrightarrow> resolveTargetIds T ids = Inr ids"
  by (induction ids) (auto split: option.split sum.split)


lemma forTargetStates_keys: "map fst (snd (forTargetStates tc rs T)) = map fst T"
proof (induction rs arbitrary: T)
  case Nil
  show ?case by simp
next
  case (Cons r rs)
  show ?case
  proof (cases "map_of T r")
    case None
    with Cons.IH show ?thesis by simp
  next
    case (Some s)
    then have "r \<in> fst ` set T" by (metis domI dom_map_of_conv_image_fst)
    then have k: "map fst (AList.update r v T) = map fst T" for v
      by (simp add: update_keys)
    obtain q s' where ap: "applyTargetChange tc s = (q, s')" by (cases "applyTargetChange tc s")
    show ?thesis using Some ap k Cons.IH [of "AList.update r s' T"]
      by (cases q) simp_all
  qed
qed

lemma update_append_new: "map_of T k = None \<Longrightarrow> AList.update k v T = T @ [(k, v)]"
  by (induction T) (auto split: if_splits)

lemma onTargetChange_frame:
  "stream (snd (onTargetChange tc ws)) = stream ws \<and>
   closed (snd (onTargetChange tc ws)) = closed ws \<and>
   projectId (snd (onTargetChange tc ws)) = projectId ws \<and>
   map fst (targets (snd (onTargetChange tc ws))) = map fst (targets ws)"
proof (cases "targetStatesForTargetChange tc ws")
  case (Inl e)
  then show ?thesis by (simp add: onTargetChange_def)
next
  case (Inr rs)
  obtain q T where f: "forTargetStates tc rs (targets ws) = (q, T)"
    by (cases "forTargetStates tc rs (targets ws)")
  have "map fst T = map fst (targets ws)"
    using forTargetStates_keys [of tc rs "targets ws"] f by simp
  with Inr f show ?thesis by (simp add: onTargetChange_def)
qed

lemma onMessageReceived_frame:
  "stream (snd (onMessageReceived msg ws)) = stream ws \<and>
   closed (snd (onMessageReceived msg ws)) = closed ws \<and>
   projectId (snd (onMessageReceived msg ws)) = projectId ws \<and>
   map fst (targets (snd (onMessageReceived msg ws))) = map fst (targets ws)"
  by (cases "targetChange msg") (simp_all add: onMessageReceived_def onTargetChange_frame)

lemma perform_Message:
  "perform (Message msg) w = (fst (onMessageReceived msg (fst w)), (snd (onMessageReceived msg (fst w)), snd w))"
  by (cases w) (simp split: prod.split)

lemma perform_stream:
  "stream (fst w) = Some h \<Longrightarrow> stream (fst (snd (perform x w))) = Some h"
proof (cases x)
  case (Message msg)
  assume "stream (fst w) = Some h"
  then show ?thesis using Message by (simp add: perform_Message onMessageReceived_frame)
qed (auto simp: ws_open_def ws_close_def addTarget_def Let_def split: prod.split option.split)

lemma perform_closed:
  "closed (fst w) \<Longrightarrow> closed (fst (snd (perform x w)))"
proof (cases x)
  case (Message msg)
  assume "closed (fst w)"
  then show ?thesis using Message by (simp add: perform_Message onMessageReceived_frame)
qed (auto simp: ws_open_def ws_close_def addTarget_def Let_def split: prod.split option.split)

lemma perform_keys:
  "distinct (map fst (targets (fst w))) \<Longrightarrow> distinct (map fst (targets (fst (snd (perform x w)))))"
proof (cases x)
  case (Message msg)
  assume "distinct (map fst (targets (fst w)))"
  then show ?thesis using Message by (simp add: perform_Message onMessageReceived_frame)
next
  case (AddTarget e tid coll k v)
  assume "distinct (map fst (targets (fst w)))"
  then show ?thesis using AddTarget
    by (auto simp: addTarget_def Let_def distinct_update split: prod.split option.split)
qed (auto simp: ws_open_def ws_close_def Let_def split: prod.split option.split)

lemma perform_channelInv: "channelInv w \<Longrightarrow> channelInv (snd (perform x w))"
proof (cases x)
  case (Message msg)
  assume "channelInv w"
  then show ?thesis using Message onMessageReceived_frame [of msg "fst w"]
    by (cases w) (auto simp: channelInv_def perform_Message simp del: perform.simps split: option.splits)
next
  case (Open reg)
  assume "channelInv w"
  then show ?thesis using Open
    by (cases w) (auto simp: channelInv_def ws_open_def Let_def list_all_iff split: option.splits)
next
  case Close
  assume "channelInv w"
  then show ?thesis using Close
    by (cases w) (auto simp: channelInv_def ws_close_def Let_def list_all_iff split: option.splits)
next
  case (AddTarget e tid coll k v)
  assume "channelInv w"
  then show ?thesis using AddTarget
    by (cases w) (auto simp: channelInv_def addTarget_def Let_def list_all_iff split: option.splits)
qed

lemma run_stream: "stream (fst w) = Some h \<Longrightarrow> stream (fst (run xs w)) = Some h"
  by (induction xs arbitrary: w) (simp_all add: perform_stream)

lemma run_closed: "closed (fst w) \<Longrightarrow> closed (fst (run xs w))"
  by (induction xs arbitrary: w) (simp_all add: perform_closed)

lemma run_keys:
  "distinct (map fst (targets (fst w))) \<Longrightarrow> distinct (map fst (targets (fst (run xs w))))"
  by (induction xs arbitrary: w) (simp_all add: perform_keys)

lemma run_channelInv: "channelInv w \<Longrightarrow> channelInv (run xs w)"
  by (induction xs arbitrary: w) (simp_all add: perform_channelInv)

lemma channelInv_new: "channelInv (newWatchStream p, newConnection)"
  by (simp add: channelInv_def newWatchStream_def newConnection_def)

lemma ws_open_refused:
  "stream (fst w) \<noteq> None \<or> closed (fst w) \<Longrightarrow> \<exists>m. ws_open reg w = (Thrown (WatchError m), w)"
  by (cases w) (auto simp: ws_open_def)

lemma ws_open_ok_sets_stream:
  "\<not> failed (fst (ws_open reg w)) \<Longrightarrow> stream (fst (snd (ws_open reg w))) \<noteq> None"
  by (cases w) (auto simp: ws_open_def Let_def split: option.splits if_splits)

lemma perform_opened_or_closed:
  "stream (fst w) \<noteq> None \<or> closed (fst w) \<Longrightarrow>
   stream (fst (snd (perform x w))) \<noteq> None \<or> closed (fst (snd (perform x w)))"
  using perform_stream [of w _ x] perform_closed [of w x] by auto

lemma successfulOpens_none:
  "stream (fst w) \<noteq> None \<or> closed (fst w) \<Longrightarrow> successfulOpens cs w = 0"
proof (induction cs arbitrary: w)
  case Nil
  show ?case by simp
next
  case (Cons x cs)
  have nxt: "successfulOpens cs (snd (perform x w)) = 0"
    by (rule Cons.IH) (rule perform_opened_or_closed [OF Cons.prems])
  have "isOpen x \<longrightarrow> failed (fst (perform x w))"
  proof (cases x)
    case (Open reg)
    from ws_open_refused [OF Cons.prems, of reg] obtain m
      where "ws_open reg w = (Thrown (WatchError m), w)" ..
    with Open show ?thesis by simp
  qed simp_all
  with nxt show ?case by auto
qed

lemma successfulOpens_le_1: "successfulOpens cs w \<le> 1"
proof (induction cs arbitrary: w)
  case Nil
  show ?case by simp
next
  case (Cons x cs)
  show ?case
  proof (cases "isOpen x \<and> \<not> failed (fst (perform x w))")
    case True
    then obtain reg where x: "x = Open reg" by (cases x) auto
    with True have "stream (fst (snd (perform x w))) \<noteq> None"
      by (simp add: ws_open_ok_sets_stream)
    then have "successfulOpens cs (snd (perform x w)) = 0"
      by (simp add: successfulOpens_none)
    with True show ?thesis by simp
  next
    case False
    with Cons.IH [of "snd (perform x w)"] show ?thesis by auto
  qed
qed

text \<open>
  Claim C7, as amended. \<open>open()\<close> gets past its guards only from the unopened, not-closed
  state. There it acquires one channel; if the registration of the callbacks succeeds it
  stores the channel, and if it throws, the channel is released again, nothing is stored and
  the stream stays unopened. Once a channel is stored or the stream is closed, whatever
  calls follow, \<open>open()\<close> throws a \<open>WatchError\<close> and changes nothing: no channel is
  acquired. So in every run at most one \<open>open()\<close> succeeds, and none after a success or
  after \<open>close()\<close>. \<open>close()\<close> on a closed stream returns at once and changes nothing,
  so a second \<open>close()\<close> releases nothing; the closed flag, once set, stays set under every
  call; and in every run from a new WatchStream no channel is released twice.
\<close>

theorem open_once_close_idempotent:
  "(stream (fst w1) \<noteq> None \<or> closed (fst w1) \<longrightarrow>
      (\<exists>m. ws_open reg (run cs w1) = (Thrown (WatchError m), run cs w1))) \<and>
   (\<not> failed (fst (ws_open reg w2)) \<longrightarrow>
      stream (fst w2) = None \<and> \<not> closed (fst w2) \<and>
      fst (ws_open reg w2) = Suspended \<and>
      stream (fst (snd (ws_open reg w2))) = Some (opened (snd w2)) \<and>
      opened (snd (snd (ws_open reg w2))) = Suc (opened (snd w2))) \<and>
   (stream (fst w2) = None \<and> \<not> closed (fst w2) \<longrightarrow>
      ws_open None w2 =
        (Suspended,
         ((fst w2)\<lparr>stream := Some (opened (snd w2))\<rparr>,
          (snd w2)\<lparr>opened := Suc (opened (snd w2))\<rparr>)) \<and>
      ws_open (Some e) w2 =
        (Thrown e,
         (fst w2,
          (snd w2)\<lparr>opened := Suc (opened (snd w2)),
                    released := released (snd w2) @ [opened (snd w2)]\<rparr>))) \<and>
   successfulOpens cs w2 \<le> 1 \<and>
   (stream (fst w1) \<noteq> None \<or> closed (fst w1) \<longrightarrow> successfulOpens cs w1 = 0) \<and>
   (closed (fst w3) \<longrightarrow> ws_close w3 = (Returned, w3)) \<and>
   ws_close (snd (ws_close w3)) = (Returned, snd (ws_close w3)) \<and>
   released (snd (snd (ws_close (snd (ws_close w3))))) = released (snd (snd (ws_close w3))) \<and>
   closed (fst (snd (ws_close w3))) \<and>
   (closed (fst w3) \<longrightarrow> closed (fst (run cs w3))) \<and>
   distinct (released (snd (run cs (newWatchStream p, newConnection))))"
proof -
  have a: "stream (fst w1) \<noteq> None \<or> closed (fst w1) \<longrightarrow>
      (\<exists>m. ws_open reg (run cs w1) = (Thrown (WatchError m), run cs w1))"
  proof
    assume "stream (fst w1) \<noteq> None \<or> closed (fst w1)"
    then have "stream (fst (run cs w1)) \<noteq> None \<or> closed (fst (run cs w1))"
      using run_stream [of w1 _ cs] run_closed [of w1 cs] by auto
    then show "\<exists>m. ws_open reg (run cs w1) = (Thrown (WatchError m), run cs w1)"
      by (rule ws_open_refused)
  qed
  have b: "\<not> failed (fst (ws_open reg w2)) \<longrightarrow>
      stream (fst w2) = None \<and> \<not> closed (fst w2) \<and>
      fst (ws_open reg w2) = Suspended \<and>
      stream (fst (snd (ws_open reg w2))) = Some (opened (snd w2)) \<and>
      opened (snd (snd (ws_open reg w2))) = Suc (opened (snd w2))"
    by (cases w2) (auto simp: ws_open_def Let_def split: option.splits)
  have b2: "stream (fst w2) = None \<and> \<not> closed (fst w2) \<longrightarrow>
      ws_open None w2 =
        (Suspended,
         ((fst w2)\<lparr>stream := Some (opened (snd w2))\<rparr>,
          (snd w2)\<lparr>opened := Suc (opened (snd w2))\<rparr>)) \<and>
      ws_open (Some e) w2 =
        (Thrown e,
         (fst w2,
          (snd w2)\<lparr>opened := Suc (opened (snd w2)),
                    released := released (snd w2) @ [opened (snd w2)]\<rparr>))"
    by (cases w2) (simp add: ws_open_def Let_def)
  have b3: "successfulOpens cs w2 \<le> 1" by (rule successfulOpens_le_1)
  have b4: "stream (fst w1) \<noteq> None \<or> closed (fst w1) \<longrightarrow> successfulOpens cs w1 = 0"
    by (simp add: successfulOpens_none)
  have c: "closed (fst w3) \<longrightarrow> ws_close w3 = (Returned, w3)"
    by (cases w3) (simp add: ws_close_def)
  have d: "closed (fst (snd (ws_close w3)))"
    by (cases w3) (simp add: ws_close_def Let_def split: option.split)
  then have e: "ws_close (snd (ws_close w3)) = (Returned, snd (ws_close w3))"
    by (cases "snd (ws_close w3)") (simp add: ws_close_def)
  have f: "closed (fst w3) \<longrightarrow> closed (fst (run cs w3))"
    by (simp add: run_closed)
  have g: "distinct (released (snd (run cs (newWatchStream p, newConnection))))"
    using run_channelInv [OF channelInv_new, of cs p]
    by (cases "run cs (newWatchStream p, newConnection)") (simp add: channelInv_def)
  from a b b2 b3 b4 c d e f g show ?thesis by simp
qed

theorem open_once_close_idempotent_witness:
  "ws_open None (run [Close] (snd (ws_open None (newWatchStream ''p'', newConnection)))) =
     (Thrown (WatchError [Text ''open() may only be called once'']),
      run [Close] (snd (ws_open None (newWatchStream ''p'', newConnection)))) \<and>
   ws_open None (snd (ws_close (newWatchStream ''p'', newConnection))) =
     (Thrown (WatchError [Text ''open() may not be called after close()'']),
      snd (ws_close (newWatchStream ''p'', newConnection))) \<and>
   fst (ws_open None (newWatchStream ''p'', newConnection)) = Suspended \<and>
   opened (snd (snd (ws_open None (newWatchStream ''p'', newConnection)))) = 1 \<and>
   released (snd (snd (ws_open (Some (TransportError ''x''))
                        (newWatchStream ''p'', newConnection)))) = [0] \<and>
   stream (fst (snd (ws_open (Some (TransportError ''x''))
                        (newWatchStream ''p'', newConnection)))) = None \<and>
   successfulOpens [Open (Some (TransportError ''x'')), Open None, Open None, Close, Open None]
     (newWatchStream ''p'', newConnection) = 1 \<and>
   successfulOpens [Open None, Close, Open None]
     (snd (ws_open None (newWatchStream ''p'', newConnection))) = 0 \<and>
   opened (snd (run [Open None, Open None, Close, Open None, Close]
                  (newWatchStream ''p'', newConnection))) = 1 \<and>
   released (snd (run [Open None, Open None, Close, Open None, Close]
                    (newWatchStream ''p'', newConnection))) = [0] \<and>
   closed (fst (run [Close, Open None] (newWatchStream ''p'', newConnection)))"
proof -
  let ?new = "(newWatchStream ''p'', newConnection)"
  let ?opened = "snd (ws_open None ?new)"
  let ?closed = "snd (ws_close ?new)"
  note defs = ws_open_def ws_close_def newWatchStream_def newConnection_def Let_def
  have a: "ws_open None (run [Close] ?opened) =
     (Thrown (WatchError [Text ''open() may only be called once'']), run [Close] ?opened)"
    using open_once_close_idempotent
            [of ?opened None "[Close]" ?new "TransportError ''x''" ?closed "''p''"]
    by (simp add: defs)
  have b: "ws_open None ?closed =
     (Thrown (WatchError [Text ''open() may not be called after close()'']), ?closed)"
    using open_once_close_idempotent
            [of ?closed None "[]" ?new "TransportError ''x''" ?closed "''p''"]
    by (simp add: defs)
  have c: "fst (ws_open None ?new) = Suspended \<and>
           opened (snd (snd (ws_open None ?new))) = 1 \<and>
           released (snd (snd (ws_open (Some (TransportError ''x'')) ?new))) = [0] \<and>
           stream (fst (snd (ws_open (Some (TransportError ''x'')) ?new))) = None"
    using open_once_close_idempotent
            [of ?opened None "[]" ?new "TransportError ''x''" ?closed "''p''"]
    by (simp add: defs)
  have d: "successfulOpens
             [Open (Some (TransportError ''x'')), Open None, Open None, Close, Open None] ?new = 1"
    by (simp add: defs)
  have e: "successfulOpens [Open None, Close, Open None] ?opened = 0"
    using open_once_close_idempotent
            [of ?opened None "[Open None, Close, Open None]" ?new "TransportError ''x''"
                ?closed "''p''"]
    by (simp add: defs)
  have f: "opened (snd (run [Open None, Open None, Close, Open None, Close] ?new)) = 1 \<and>
           released (snd (run [Open None, Open None, Close, Open None, Close] ?new)) = [0] \<and>
           closed (fst (run [Close, Open None] ?new))"
    by (simp add: defs)
  from a b c d e f show ?thesis by simp
qed

text \<open>
  Claim C7 as stated has every second call of \<open>open()\<close> fail without acquiring a channel.
  After a first \<open>open()\<close> whose callback registration threw, \<^verbatim>\<open>_stream\<close> is still null:
  the second call passes both guards, acquires a second channel and stores it.
\<close>

theorem open_once_close_idempotent_counterexample:
  "fst (ws_open (Some (TransportError ''registration failed''))
         (newWatchStream ''p'', newConnection)) =
     Thrown (TransportError ''registration failed'') \<and>
   fst (ws_open None
         (snd (ws_open (Some (TransportError ''registration failed''))
                (newWatchStream ''p'', newConnection)))) = Suspended \<and>
   opened (snd (run [Open (Some (TransportError ''registration failed'')), Open None]
                  (newWatchStream ''p'', newConnection))) = 2 \<and>
   stream (fst (run [Open (Some (TransportError ''registration failed'')), Open None]
                  (newWatchStream ''p'', newConnection))) = Some 1"
  by (simp add: ws_open_def newWatchStream_def newConnection_def Let_def)

lemma addTarget_refused_unchanged:
  "failed (fst (addTarget e tid coll k v w)) \<Longrightarrow> snd (addTarget e tid coll k v w) = w"
  by (cases w) (auto simp: addTarget_def Let_def split: option.splits if_splits)

text \<open>
  Claim C8. \<open>addTarget\<close> throws a \<open>WatchError\<close> when the stream is not open, when it is
  closed, or when the target identifier is already registered; a failing call changes
  neither the registry nor the messages sent, so a duplicate sends no second message. When
  none of the three holds, the add-target message is sent on the stored channel and a fresh
  TargetState (not added, not current, no token) is appended to the registry under the
  identifier, without any server message being awaited; if the send itself throws, nothing
  is registered, the registration being the statement after the send.
\<close>

theorem addTarget_contract:
  "(stream (fst w) = None \<longrightarrow>
      addTarget e tid coll k v w =
        (Thrown (WatchError [Text ''open() must be called before addTarget()'']), w)) \<and>
   (stream (fst w) \<noteq> None \<and> closed (fst w) \<longrightarrow>
      addTarget e tid coll k v w =
        (Thrown (WatchError [Text ''addTarget() may not be called after close()'']), w)) \<and>
   (stream (fst w) \<noteq> None \<and> \<not> closed (fst w) \<and> map_of (targets (fst w)) tid \<noteq> None \<longrightarrow>
      addTarget e tid coll k v w =
        (Thrown (WatchError [Text ''targetId '', Number tid, Text '' is already used'']), w)) \<and>
   (map_of (targets (fst w)) tid \<noteq> None \<longrightarrow>
      failed (fst (addTarget e tid coll k v w)) \<and>
      sent (snd (snd (addTarget e tid coll k v w))) = sent (snd w) \<and>
      targets (fst (snd (addTarget e tid coll k v w))) = targets (fst w)) \<and>
   (failed (fst (addTarget None tid coll k v w)) \<longleftrightarrow>
      stream (fst w) = None \<or> closed (fst w) \<or> map_of (targets (fst w)) tid \<noteq> None) \<and>
   (failed (fst (addTarget e tid coll k v w)) \<longrightarrow> snd (addTarget e tid coll k v w) = w) \<and>
   (stream (fst w) = Some h \<and> \<not> closed (fst w) \<and> map_of (targets (fst w)) tid = None \<longrightarrow>
      addTarget None tid coll k v w =
        (Returned,
         ((fst w)\<lparr>targets := targets (fst w) @ [(tid, newTargetState)]\<rparr>,
          (snd w)\<lparr>sent := sent (snd w) @
                     [(h, addTargetRequest (projectId (fst w)) tid coll k v)]\<rparr>)) \<and>
      addTarget (Some err) tid coll k v w = (Thrown err, w))"
proof -
  obtain ws c where w: "w = (ws, c)" by (cases w)
  have 1: "stream (fst w) = None \<longrightarrow>
      addTarget e tid coll k v w =
        (Thrown (WatchError [Text ''open() must be called before addTarget()'']), w)"
    by (simp add: w addTarget_def)
  have 2: "stream (fst w) \<noteq> None \<and> closed (fst w) \<longrightarrow>
      addTarget e tid coll k v w =
        (Thrown (WatchError [Text ''addTarget() may not be called after close()'']), w)"
    by (auto simp: w addTarget_def)
  have 3: "stream (fst w) \<noteq> None \<and> \<not> closed (fst w) \<and> map_of (targets (fst w)) tid \<noteq> None \<longrightarrow>
      addTarget e tid coll k v w =
        (Thrown (WatchError [Text ''targetId '', Number tid, Text '' is already used'']), w)"
    by (auto simp: w addTarget_def)
  have 4: "map_of (targets (fst w)) tid \<noteq> None \<longrightarrow>
      failed (fst (addTarget e tid coll k v w)) \<and>
      sent (snd (snd (addTarget e tid coll k v w))) = sent (snd w) \<and>
      targets (fst (snd (addTarget e tid coll k v w))) = targets (fst w)"
    by (auto simp: w addTarget_def split: option.splits)
  have 5: "failed (fst (addTarget None tid coll k v w)) \<longleftrightarrow>
      stream (fst w) = None \<or> closed (fst w) \<or> map_of (targets (fst w)) tid \<noteq> None"
    by (auto simp: w addTarget_def Let_def split: option.splits)
  have 6: "failed (fst (addTarget e tid coll k v w)) \<longrightarrow> snd (addTarget e tid coll k v w) = w"
    by (simp add: addTarget_refused_unchanged)
  have 7: "stream (fst w) = Some h \<and> \<not> closed (fst w) \<and> map_of (targets (fst w)) tid = None \<longrightarrow>
      addTarget None tid coll k v w =
        (Returned,
         ((fst w)\<lparr>targets := targets (fst w) @ [(tid, newTargetState)]\<rparr>,
          (snd w)\<lparr>sent := sent (snd w) @
                     [(h, addTargetRequest (projectId (fst w)) tid coll k v)]\<rparr>)) \<and>
      addTarget (Some err) tid coll k v w = (Thrown err, w)"
    by (auto simp: w addTarget_def Let_def update_append_new)
  from 1 2 3 4 5 6 7 show ?thesis by blast
qed

theorem addTarget_contract_witness:
  "addTarget None 1 ''TestCollection'' ''TestKey'' ''TestValue''
     (\<lparr>projectId = ''p'', stream = Some 0, closed = False, targets = []\<rparr>,
      \<lparr>opened = 1, released = [], sent = []\<rparr>) =
     (Returned,
      (\<lparr>projectId = ''p'', stream = Some 0, closed = False,
        targets = [(1, \<lparr>added = False, current = False, resumeToken = None\<rparr>)]\<rparr>,
       \<lparr>opened = 1, released = [],
        sent = [(0, \<lparr>targetId = 1, parent = ''projects/p/databases/(default)/documents'',
                     fromCollectionIds = [''TestCollection''], fieldPath = ''TestKey'',
                     op = ''EQUAL'', stringValue = ''TestValue''\<rparr>)]\<rparr>)) \<and>
   addTarget None 1 ''c'' ''k'' ''v''
     (\<lparr>projectId = ''p'', stream = Some 0, closed = False, targets = [(1, newTargetState)]\<rparr>,
      \<lparr>opened = 1, released = [], sent = []\<rparr>) =
     (Thrown (WatchError [Text ''targetId '', Number 1, Text '' is already used'']),
      (\<lparr>projectId = ''p'', stream = Some 0, closed = False, targets = [(1, newTargetState)]\<rparr>,
       \<lparr>opened = 1, released = [], sent = []\<rparr>)) \<and>
   failed (fst (addTarget None 1 ''c'' ''k'' ''v'' (newWatchStream ''p'', newConnection))) \<and>
   failed (fst (addTarget None 1 ''c'' ''k'' ''v''
     (\<lparr>projectId = ''p'', stream = Some 0, closed = True, targets = []\<rparr>,
      \<lparr>opened = 1, released = [0], sent = []\<rparr>)))"
  using addTarget_contract
          [of "(\<lparr>projectId = ''p'', stream = Some 0, closed = False, targets = []\<rparr>,
                \<lparr>opened = 1, released = [], sent = []\<rparr>)"
              None 1 "''TestCollection''" "''TestKey''" "''TestValue''" 0]
        addTarget_contract
          [of "(\<lparr>projectId = ''p'', stream = Some 0, closed = False,
                 targets = [(1, newTargetState)]\<rparr>,
                \<lparr>opened = 1, released = [], sent = []\<rparr>)"
              None 1 "''c''" "''k''" "''v''" 0]
        addTarget_contract
          [of "(newWatchStream ''p'', newConnection)" None 1 "''c''" "''k''" "''v''" 0]
        addTarget_contract
          [of "(\<lparr>projectId = ''p'', stream = Some 0, closed = True, targets = []\<rparr>,
                \<lparr>opened = 1, released = [0], sent = []\<rparr>)"
              None 1 "''c''" "''k''" "''v''" 0]
  by (simp add: newWatchStream_def newConnection_def newTargetState_def addTargetRequest_def)


lemma forTargetStates_whole:
  "distinct (map fst T) \<Longrightarrow>
   (fst (forTargetStates tc (map fst T) T) = Returned \<longleftrightarrow>
      (\<forall>(i, s) \<in> set T. fst (applyTargetChange tc s) = Returned)) \<and>
   (fst (forTargetStates tc (map fst T) T) = Returned \<longrightarrow>
      snd (forTargetStates tc (map fst T) T) =
        map (\<lambda>(i, s). (i, snd (applyTargetChange tc s))) T)"
proof (cases "\<forall>(i, s) \<in> set T. fst (applyTargetChange tc s) = Returned")
  case True
  assume "distinct (map fst T)"
  then have "distinct (map fst ([] @ T))" by simp
  from forTargetStates_all_ok [OF this True] True show ?thesis by simp
next
  case False
  assume "distinct (map fst T)"
  then have d: "distinct (map fst ([] @ T))" by simp
  from False have "\<exists>(i, s) \<in> set T. fst (applyTargetChange tc s) \<noteq> Returned" by auto
  from forTargetStates_some_fail [OF d this]
  have "failed (fst (forTargetStates tc (map fst T) T))" by simp
  then have "fst (forTargetStates tc (map fst T) T) \<noteq> Returned" by auto
  with False show ?thesis by simp
qed

lemma applyTargetChange_failed_unchanged:
  "failed (fst (applyTargetChange tc s)) \<Longrightarrow> snd (applyTargetChange tc s) = s"
  by (cases "targetChangeType tc")
     (auto simp: applyTargetChange_def transition_defs split: if_splits option.splits)

lemma forTargetStates_first_fail:
  "distinct (map fst (P0 @ P @ (i, s) # Q)) \<Longrightarrow>
   \<forall>(j, t) \<in> set P. fst (applyTargetChange tc t) = Returned \<Longrightarrow>
   failed (fst (applyTargetChange tc s)) \<Longrightarrow>
   forTargetStates tc (map fst (P @ (i, s) # Q)) (P0 @ P @ (i, s) # Q) =
     (fst (applyTargetChange tc s),
      P0 @ map (\<lambda>(j, t). (j, snd (applyTargetChange tc t))) P @ (i, s) # Q)"
proof (induction P arbitrary: P0)
  case Nil
  have notin: "i \<notin> fst ` set P0" using Nil.prems(1) by auto
  obtain r s' where ap: "applyTargetChange tc s = (r, s')" by (cases "applyTargetChange tc s")
  with Nil.prems(3) obtain e where r: "r = Thrown e" by (cases r) auto
  have "s' = s" using applyTargetChange_failed_unchanged [OF Nil.prems(3)] ap by simp
  with ap r notin show ?case
    by (simp add: map_of_middle update_middle del: map_of_append)
next
  case (Cons x P)
  obtain j t where x: "x = (j, t)" by (cases x)
  obtain t' where ap: "applyTargetChange tc t = (Returned, t')"
    using Cons.prems(2) x by (cases "applyTargetChange tc t") auto
  have notin: "j \<notin> fst ` set P0" using Cons.prems(1) x by auto
  have d: "distinct (map fst ((P0 @ [(j, t')]) @ P @ (i, s) # Q))"
    using Cons.prems(1) x by auto
  have rest: "\<forall>(j, t) \<in> set P. fst (applyTargetChange tc t) = Returned"
    using Cons.prems(2) by auto
  have m: "map_of (P0 @ (j, t) # P @ (i, s) # Q) j = Some t"
    using notin by (rule map_of_middle)
  have u: "AList.update j t' (P0 @ (j, t) # P @ (i, s) # Q) = P0 @ (j, t') # P @ (i, s) # Q"
    using notin by (rule update_middle)
  from Cons.IH [OF d rest Cons.prems(3)] show ?case
    using x ap m u by (simp del: map_of_append)
qed

text \<open>
  Claim C2, as amended. A targetChange that lists identifiers of which one is unknown fails
  as a whole with a \<open>WatchError\<close> and leaves the WatchStream as it was: no transition is
  applied to any target. When all listed identifiers are known, they resolve to exactly the
  listed targets, in order, and the loop runs over them. When no identifier is listed (the
  field is absent or empty), the message resolves to every registered target and the
  transition of its change type (\<open>ADD\<close>: \<open>onAdded\<close>, \<open>REMOVE\<close>: \<open>onRemoved\<close>,
  \<open>CURRENT\<close>: \<open>onCurrent\<close>, \<open>RESET\<close>: \<open>onReset\<close>, \<open>NO_CHANGE\<close>: \<open>onNoChange\<close> with the
  message's token) is applied to them in the order of their registration. The dispatch
  returns exactly when the transition's guard holds on each of them, and then each has
  undergone the transition. Otherwise it throws at the first target whose guard fails: the
  targets registered before it have undergone the transition, that target and all later
  ones are unchanged. A message that carries a targetChange is dispatched to this handler.
  The keys of the registry are distinct in every reachable state.
\<close>

theorem targetChange_resolution:
  "(targetIds tc = Some ids \<and> ids \<noteq> [] \<and> (\<exists>i \<in> set ids. map_of (targets ws) i = None) \<longrightarrow>
      (\<exists>m. onTargetChange tc ws = (Thrown (WatchError m), ws))) \<and>
   (targetIds tc = Some ids \<and> ids \<noteq> [] \<and> (\<forall>i \<in> set ids. map_of (targets ws) i \<noteq> None) \<longrightarrow>
      targetStatesForTargetChange tc ws = Inr ids \<and>
      onTargetChange tc ws =
        (fst (forTargetStates tc ids (targets ws)),
         ws\<lparr>targets := snd (forTargetStates tc ids (targets ws))\<rparr>)) \<and>
   (targetIds tc = None \<or> targetIds tc = Some [] \<longrightarrow>
      targetStatesForTargetChange tc ws = Inr (map fst (targets ws))) \<and>
   ((targetIds tc = None \<or> targetIds tc = Some []) \<and> distinct (map fst (targets ws)) \<longrightarrow>
      (fst (onTargetChange tc ws) = Returned \<longleftrightarrow>
         (\<forall>(i, s) \<in> set (targets ws). fst (applyTargetChange tc s) = Returned)) \<and>
      (fst (onTargetChange tc ws) = Returned \<longrightarrow>
         snd (onTargetChange tc ws) =
           ws\<lparr>targets := map (\<lambda>(i, s). (i, snd (applyTargetChange tc s))) (targets ws)\<rparr>)) \<and>
   ((targetIds tc = None \<or> targetIds tc = Some []) \<and> distinct (map fst (targets ws)) \<and>
    targets ws = P @ (k, u) # Q \<and>
    (\<forall>(i, s) \<in> set P. fst (applyTargetChange tc s) = Returned) \<and>
    failed (fst (applyTargetChange tc u)) \<longrightarrow>
      onTargetChange tc ws =
        (fst (applyTargetChange tc u),
         ws\<lparr>targets := map (\<lambda>(i, s). (i, snd (applyTargetChange tc s))) P @ (k, u) # Q\<rparr>)) \<and>
   (targetChangeType tc = Some ''ADD'' \<longrightarrow> applyTargetChange tc s0 = onAdded s0) \<and>
   (targetChangeType tc = Some ''REMOVE'' \<longrightarrow> applyTargetChange tc s0 = onRemoved s0) \<and>
   (targetChangeType tc = Some ''CURRENT'' \<longrightarrow> applyTargetChange tc s0 = onCurrent s0) \<and>
   (targetChangeType tc = Some ''RESET'' \<longrightarrow> applyTargetChange tc s0 = onReset s0) \<and>
   (targetChangeType tc = Some ''NO_CHANGE'' \<longrightarrow>
      applyTargetChange tc s0 = onNoChange (tc_resumeToken tc) s0) \<and>
   (targetChange msg = Some tc \<longrightarrow> onMessageReceived msg ws = onTargetChange tc ws) \<and>
   distinct (map fst (targets (fst (run cs (newWatchStream p, c)))))"
proof -
  have a: "targetIds tc = Some ids \<and> ids \<noteq> [] \<and> (\<exists>i \<in> set ids. map_of (targets ws) i = None) \<longrightarrow>
      (\<exists>m. onTargetChange tc ws = (Thrown (WatchError m), ws))"
  proof
    assume h: "targetIds tc = Some ids \<and> ids \<noteq> [] \<and> (\<exists>i \<in> set ids. map_of (targets ws) i = None)"
    then obtain m where "resolveTargetIds (targets ws) ids = Inl (WatchError m)"
      using resolveTargetIds_unknown [of ids "targets ws"] by blast
    with h have "onTargetChange tc ws = (Thrown (WatchError m), ws)"
      by (simp add: onTargetChange_def targetStatesForTargetChange_def)
    then show "\<exists>m. onTargetChange tc ws = (Thrown (WatchError m), ws)" ..
  qed
  have b: "targetIds tc = Some ids \<and> ids \<noteq> [] \<and> (\<forall>i \<in> set ids. map_of (targets ws) i \<noteq> None) \<longrightarrow>
      targetStatesForTargetChange tc ws = Inr ids \<and>
      onTargetChange tc ws =
        (fst (forTargetStates tc ids (targets ws)),
         ws\<lparr>targets := snd (forTargetStates tc ids (targets ws))\<rparr>)"
  proof
    assume h: "targetIds tc = Some ids \<and> ids \<noteq> [] \<and> (\<forall>i \<in> set ids. map_of (targets ws) i \<noteq> None)"
    then have "resolveTargetIds (targets ws) ids = Inr ids"
      using resolveTargetIds_known [of ids "targets ws"] by blast
    with h have r: "targetStatesForTargetChange tc ws = Inr ids"
      by (simp add: targetStatesForTargetChange_def)
    then show "targetStatesForTargetChange tc ws = Inr ids \<and>
      onTargetChange tc ws =
        (fst (forTargetStates tc ids (targets ws)),
         ws\<lparr>targets := snd (forTargetStates tc ids (targets ws))\<rparr>)"
      by (simp add: onTargetChange_def split: prod.split)
  qed
  have c: "targetIds tc = None \<or> targetIds tc = Some [] \<longrightarrow>
      targetStatesForTargetChange tc ws = Inr (map fst (targets ws))"
    by (auto simp: targetStatesForTargetChange_def)
  have o: "targetIds tc = None \<or> targetIds tc = Some [] \<Longrightarrow> onTargetChange tc ws =
        (fst (forTargetStates tc (map fst (targets ws)) (targets ws)),
         ws\<lparr>targets := snd (forTargetStates tc (map fst (targets ws)) (targets ws))\<rparr>)"
    using c by (simp add: onTargetChange_def split: prod.split)
  have d: "(targetIds tc = None \<or> targetIds tc = Some []) \<and> distinct (map fst (targets ws)) \<longrightarrow>
      (fst (onTargetChange tc ws) = Returned \<longleftrightarrow>
         (\<forall>(i, s) \<in> set (targets ws). fst (applyTargetChange tc s) = Returned)) \<and>
      (fst (onTargetChange tc ws) = Returned \<longrightarrow>
         snd (onTargetChange tc ws) =
           ws\<lparr>targets := map (\<lambda>(i, s). (i, snd (applyTargetChange tc s))) (targets ws)\<rparr>)"
  proof
    assume h: "(targetIds tc = None \<or> targetIds tc = Some []) \<and> distinct (map fst (targets ws))"
    then have "distinct (map fst (targets ws))" by simp
    from forTargetStates_whole [OF this, of tc] o h
    show "(fst (onTargetChange tc ws) = Returned \<longleftrightarrow>
         (\<forall>(i, s) \<in> set (targets ws). fst (applyTargetChange tc s) = Returned)) \<and>
      (fst (onTargetChange tc ws) = Returned \<longrightarrow>
         snd (onTargetChange tc ws) =
           ws\<lparr>targets := map (\<lambda>(i, s). (i, snd (applyTargetChange tc s))) (targets ws)\<rparr>)"
      by simp
  qed
  have e: "(targetIds tc = None \<or> targetIds tc = Some []) \<and> distinct (map fst (targets ws)) \<and>
    targets ws = P @ (k, u) # Q \<and>
    (\<forall>(i, s) \<in> set P. fst (applyTargetChange tc s) = Returned) \<and>
    failed (fst (applyTargetChange tc u)) \<longrightarrow>
      onTargetChange tc ws =
        (fst (applyTargetChange tc u),
         ws\<lparr>targets := map (\<lambda>(i, s). (i, snd (applyTargetChange tc s))) P @ (k, u) # Q\<rparr>)"
  proof
    assume h: "(targetIds tc = None \<or> targetIds tc = Some []) \<and> distinct (map fst (targets ws)) \<and>
      targets ws = P @ (k, u) # Q \<and>
      (\<forall>(i, s) \<in> set P. fst (applyTargetChange tc s) = Returned) \<and>
      failed (fst (applyTargetChange tc u))"
    then have T: "targets ws = P @ (k, u) # Q" by simp
    from h T have dd: "distinct (map fst ([] @ P @ (k, u) # Q))" by simp
    from h have ok: "\<forall>(i, s) \<in> set P. fst (applyTargetChange tc s) = Returned" by simp
    from h have bad: "failed (fst (applyTargetChange tc u))" by simp
    from forTargetStates_first_fail [OF dd ok bad]
    have "forTargetStates tc (map fst (targets ws)) (targets ws) =
        (fst (applyTargetChange tc u),
         map (\<lambda>(i, s). (i, snd (applyTargetChange tc s))) P @ (k, u) # Q)"
      using T by simp
    with o h show "onTargetChange tc ws =
        (fst (applyTargetChange tc u),
         ws\<lparr>targets := map (\<lambda>(i, s). (i, snd (applyTargetChange tc s))) P @ (k, u) # Q\<rparr>)"
      by simp
  qed
  have f1: "targetChangeType tc = Some ''ADD'' \<longrightarrow> applyTargetChange tc s0 = onAdded s0"
    by (simp add: applyTargetChange_def)
  have f2: "targetChangeType tc = Some ''REMOVE'' \<longrightarrow> applyTargetChange tc s0 = onRemoved s0"
    by (simp add: applyTargetChange_def)
  have f3: "targetChangeType tc = Some ''CURRENT'' \<longrightarrow> applyTargetChange tc s0 = onCurrent s0"
    by (simp add: applyTargetChange_def)
  have f4: "targetChangeType tc = Some ''RESET'' \<longrightarrow> applyTargetChange tc s0 = onReset s0"
    by (simp add: applyTargetChange_def)
  have f5: "targetChangeType tc = Some ''NO_CHANGE'' \<longrightarrow>
      applyTargetChange tc s0 = onNoChange (tc_resumeToken tc) s0"
    by (simp add: applyTargetChange_def)
  have g: "targetChange msg = Some tc \<longrightarrow> onMessageReceived msg ws = onTargetChange tc ws"
    by (simp add: onMessageReceived_def)
  have i: "distinct (map fst (targets (fst (run cs (newWatchStream p, c)))))"
    by (rule run_keys) (simp add: newWatchStream_def)
  show ?thesis by (intro conjI) (fact a b c d e f1 f2 f3 f4 f5 g i)+
qed

theorem targetChange_resolution_witness:
  "onTargetChange \<lparr>targetIds = Some [1, 3], targetChangeType = Some ''ADD'', tc_resumeToken = None\<rparr>
     \<lparr>projectId = ''p'', stream = Some 0, closed = False,
      targets = [(1, newTargetState), (2, newTargetState)]\<rparr> =
     (Thrown (WatchError [Text ''TargetChange specifies an unknown targetId: '', Number 3]),
      \<lparr>projectId = ''p'', stream = Some 0, closed = False,
       targets = [(1, newTargetState), (2, newTargetState)]\<rparr>) \<and>
   onTargetChange \<lparr>targetIds = Some [2], targetChangeType = Some ''ADD'', tc_resumeToken = None\<rparr>
     \<lparr>projectId = ''p'', stream = Some 0, closed = False,
      targets = [(1, newTargetState), (2, newTargetState)]\<rparr> =
     (Returned,
      \<lparr>projectId = ''p'', stream = Some 0, closed = False,
       targets = [(1, newTargetState),
                  (2, \<lparr>added = True, current = False, resumeToken = None\<rparr>)]\<rparr>) \<and>
   onTargetChange \<lparr>targetIds = None, targetChangeType = Some ''CURRENT'', tc_resumeToken = None\<rparr>
     \<lparr>projectId = ''p'', stream = Some 0, closed = False,
      targets = [(1, \<lparr>added = True, current = False, resumeToken = None\<rparr>),
                 (2, \<lparr>added = True, current = False, resumeToken = None\<rparr>)]\<rparr> =
     (Returned,
      \<lparr>projectId = ''p'', stream = Some 0, closed = False,
       targets = [(1, \<lparr>added = True, current = True, resumeToken = None\<rparr>),
                  (2, \<lparr>added = True, current = True, resumeToken = None\<rparr>)]\<rparr>) \<and>
   onTargetChange \<lparr>targetIds = Some [], targetChangeType = Some ''REMOVE'', tc_resumeToken = None\<rparr>
     \<lparr>projectId = ''p'', stream = Some 0, closed = False,
      targets = [(1, \<lparr>added = True, current = True, resumeToken = None\<rparr>),
                 (2, \<lparr>added = True, current = False, resumeToken = None\<rparr>)]\<rparr> =
     (Returned,
      \<lparr>projectId = ''p'', stream = Some 0, closed = False,
       targets = [(1, \<lparr>added = False, current = False, resumeToken = None\<rparr>),
                  (2, \<lparr>added = False, current = False, resumeToken = None\<rparr>)]\<rparr>) \<and>
   onTargetChange
     \<lparr>targetIds = None, targetChangeType = Some ''NO_CHANGE'',
      tc_resumeToken = Some (StringToken ''t'')\<rparr>
     \<lparr>projectId = ''p'', stream = Some 0, closed = False,
      targets = [(1, \<lparr>added = True, current = True, resumeToken = None\<rparr>),
                 (2, \<lparr>added = True, current = False, resumeToken = None\<rparr>),
                 (3, \<lparr>added = True, current = True, resumeToken = None\<rparr>)]\<rparr> =
     (Thrown (TargetStateError ''onNoChange() invoked when not current.''),
      \<lparr>projectId = ''p'', stream = Some 0, closed = False,
       targets = [(1, \<lparr>added = True, current = True, resumeToken = Some (StringToken ''t'')\<rparr>),
                  (2, \<lparr>added = True, current = False, resumeToken = None\<rparr>),
                  (3, \<lparr>added = True, current = True, resumeToken = None\<rparr>)]\<rparr>) \<and>
   onMessageReceived
     \<lparr>targetChange =
        Some \<lparr>targetIds = Some [1], targetChangeType = Some ''RESET'', tc_resumeToken = None\<rparr>,
      documentChange = None, documentRemove = None, documentDelete = None, filter_ = None\<rparr>
     \<lparr>projectId = ''p'', stream = Some 0, closed = False,
      targets = [(1, \<lparr>added = True, current = True, resumeToken = None\<rparr>)]\<rparr> =
     (Returned,
      \<lparr>projectId = ''p'', stream = Some 0, closed = False,
       targets = [(1, \<lparr>added = True, current = False, resumeToken = None\<rparr>)]\<rparr>)"
proof -
  note defs = onTargetChange_def targetStatesForTargetChange_def applyTargetChange_def
    onMessageReceived_def transition_defs newTargetState_def
  have a: "onTargetChange
     \<lparr>targetIds = Some [1, 3], targetChangeType = Some ''ADD'', tc_resumeToken = None\<rparr>
     \<lparr>projectId = ''p'', stream = Some 0, closed = False,
      targets = [(1, newTargetState), (2, newTargetState)]\<rparr> =
     (Thrown (WatchError [Text ''TargetChange specifies an unknown targetId: '', Number 3]),
      \<lparr>projectId = ''p'', stream = Some 0, closed = False,
       targets = [(1, newTargetState), (2, newTargetState)]\<rparr>)"
    using targetChange_resolution
      [where tc = "\<lparr>targetIds = Some [1, 3], targetChangeType = Some ''ADD'',
                     tc_resumeToken = None\<rparr>"
         and ids = "[1, 3]"
         and ws = "\<lparr>projectId = ''p'', stream = Some 0, closed = False,
                     targets = [(1, newTargetState), (2, newTargetState)]\<rparr>"
         and P = "[]" and k = 1 and u = newTargetState and Q = "[(2, newTargetState)]"
         and ?s0.0 = newTargetState
         and msg = "\<lparr>targetChange = None, documentChange = None, documentRemove = None,
                      documentDelete = None, filter_ = None\<rparr>"
         and cs = "[]" and p = "''p''" and c = newConnection]
    by (simp add: defs)
  have b: "onTargetChange
     \<lparr>targetIds = Some [2], targetChangeType = Some ''ADD'', tc_resumeToken = None\<rparr>
     \<lparr>projectId = ''p'', stream = Some 0, closed = False,
      targets = [(1, newTargetState), (2, newTargetState)]\<rparr> =
     (Returned,
      \<lparr>projectId = ''p'', stream = Some 0, closed = False,
       targets = [(1, newTargetState),
                  (2, \<lparr>added = True, current = False, resumeToken = None\<rparr>)]\<rparr>)"
    using targetChange_resolution
      [where tc = "\<lparr>targetIds = Some [2], targetChangeType = Some ''ADD'',
                     tc_resumeToken = None\<rparr>"
         and ids = "[2]"
         and ws = "\<lparr>projectId = ''p'', stream = Some 0, closed = False,
                     targets = [(1, newTargetState), (2, newTargetState)]\<rparr>"
         and P = "[]" and k = 1 and u = newTargetState and Q = "[(2, newTargetState)]"
         and ?s0.0 = newTargetState
         and msg = "\<lparr>targetChange = None, documentChange = None, documentRemove = None,
                      documentDelete = None, filter_ = None\<rparr>"
         and cs = "[]" and p = "''p''" and c = newConnection]
    by (simp add: defs)
  have c: "onTargetChange
     \<lparr>targetIds = None, targetChangeType = Some ''CURRENT'', tc_resumeToken = None\<rparr>
     \<lparr>projectId = ''p'', stream = Some 0, closed = False,
      targets = [(1, \<lparr>added = True, current = False, resumeToken = None\<rparr>),
                 (2, \<lparr>added = True, current = False, resumeToken = None\<rparr>)]\<rparr> =
     (Returned,
      \<lparr>projectId = ''p'', stream = Some 0, closed = False,
       targets = [(1, \<lparr>added = True, current = True, resumeToken = None\<rparr>),
                  (2, \<lparr>added = True, current = True, resumeToken = None\<rparr>)]\<rparr>)"
    using targetChange_resolution
      [where tc = "\<lparr>targetIds = None, targetChangeType = Some ''CURRENT'',
                     tc_resumeToken = None\<rparr>"
         and ids = "[]"
         and ws = "\<lparr>projectId = ''p'', stream = Some 0, closed = False,
                     targets = [(1, \<lparr>added = True, current = False, resumeToken = None\<rparr>),
                                (2, \<lparr>added = True, current = False, resumeToken = None\<rparr>)]\<rparr>"
         and P = "[]" and k = 1 and u = newTargetState and Q = "[]"
         and ?s0.0 = "\<lparr>added = True, current = False, resumeToken = None\<rparr>"
         and msg = "\<lparr>targetChange = None, documentChange = None, documentRemove = None,
                      documentDelete = None, filter_ = None\<rparr>"
         and cs = "[]" and p = "''p''" and c = newConnection]
    by (simp add: defs)
  have d: "onTargetChange
     \<lparr>targetIds = Some [], targetChangeType = Some ''REMOVE'', tc_resumeToken = None\<rparr>
     \<lparr>projectId = ''p'', stream = Some 0, closed = False,
      targets = [(1, \<lparr>added = True, current = True, resumeToken = None\<rparr>),
                 (2, \<lparr>added = True, current = False, resumeToken = None\<rparr>)]\<rparr> =
     (Returned,
      \<lparr>projectId = ''p'', stream = Some 0, closed = False,
       targets = [(1, \<lparr>added = False, current = False, resumeToken = None\<rparr>),
                  (2, \<lparr>added = False, current = False, resumeToken = None\<rparr>)]\<rparr>)"
    using targetChange_resolution
      [where tc = "\<lparr>targetIds = Some [], targetChangeType = Some ''REMOVE'',
                     tc_resumeToken = None\<rparr>"
         and ids = "[]"
         and ws = "\<lparr>projectId = ''p'', stream = Some 0, closed = False,
                     targets = [(1, \<lparr>added = True, current = True, resumeToken = None\<rparr>),
                                (2, \<lparr>added = True, current = False, resumeToken = None\<rparr>)]\<rparr>"
         and P = "[]" and k = 1 and u = newTargetState and Q = "[]"
         and ?s0.0 = "\<lparr>added = True, current = False, resumeToken = None\<rparr>"
         and msg = "\<lparr>targetChange = None, documentChange = None, documentRemove = None,
                      documentDelete = None, filter_ = None\<rparr>"
         and cs = "[]" and p = "''p''" and c = newConnection]
    by (simp add: defs)
  have e: "onTargetChange
     \<lparr>targetIds = None, targetChangeType = Some ''NO_CHANGE'',
      tc_resumeToken = Some (StringToken ''t'')\<rparr>
     \<lparr>projectId = ''p'', stream = Some 0, closed = False,
      targets = [(1, \<lparr>added = True, current = True, resumeToken = None\<rparr>),
                 (2, \<lparr>added = True, current = False, resumeToken = None\<rparr>),
                 (3, \<lparr>added = True, current = True, resumeToken = None\<rparr>)]\<rparr> =
     (Thrown (TargetStateError ''onNoChange() invoked when not current.''),
      \<lparr>projectId = ''p'', stream = Some 0, closed = False,
       targets = [(1, \<lparr>added = True, current = True, resumeToken = Some (StringToken ''t'')\<rparr>),
                  (2, \<lparr>added = True, current = False, resumeToken = None\<rparr>),
                  (3, \<lparr>added = True, current = True, resumeToken = None\<rparr>)]\<rparr>)"
    using targetChange_resolution
      [where tc = "\<lparr>targetIds = None, targetChangeType = Some ''NO_CHANGE'',
                     tc_resumeToken = Some (StringToken ''t'')\<rparr>"
         and ids = "[]"
         and ws = "\<lparr>projectId = ''p'', stream = Some 0, closed = False,
                     targets = [(1, \<lparr>added = True, current = True, resumeToken = None\<rparr>),
                                (2, \<lparr>added = True, current = False, resumeToken = None\<rparr>),
                                (3, \<lparr>added = True, current = True, resumeToken = None\<rparr>)]\<rparr>"
         and P = "[(1, \<lparr>added = True, current = True, resumeToken = None\<rparr>)]"
         and k = 2 and u = "\<lparr>added = True, current = False, resumeToken = None\<rparr>"
         and Q = "[(3, \<lparr>added = True, current = True, resumeToken = None\<rparr>)]"
         and ?s0.0 = "\<lparr>added = True, current = True, resumeToken = None\<rparr>"
         and msg = "\<lparr>targetChange = None, documentChange = None, documentRemove = None,
                      documentDelete = None, filter_ = None\<rparr>"
         and cs = "[]" and p = "''p''" and c = newConnection]
    by (simp add: defs)
  have f: "onMessageReceived
     \<lparr>targetChange =
        Some \<lparr>targetIds = Some [1], targetChangeType = Some ''RESET'', tc_resumeToken = None\<rparr>,
      documentChange = None, documentRemove = None, documentDelete = None, filter_ = None\<rparr>
     \<lparr>projectId = ''p'', stream = Some 0, closed = False,
      targets = [(1, \<lparr>added = True, current = True, resumeToken = None\<rparr>)]\<rparr> =
     (Returned,
      \<lparr>projectId = ''p'', stream = Some 0, closed = False,
       targets = [(1, \<lparr>added = True, current = False, resumeToken = None\<rparr>)]\<rparr>)"
    using targetChange_resolution
      [where tc = "\<lparr>targetIds = Some [1], targetChangeType = Some ''RESET'',
                     tc_resumeToken = None\<rparr>"
         and ids = "[1]"
         and ws = "\<lparr>projectId = ''p'', stream = Some 0, closed = False,
                     targets = [(1, \<lparr>added = True, current = True, resumeToken = None\<rparr>)]\<rparr>"
         and P = "[]" and k = 1 and u = newTargetState and Q = "[]"
         and ?s0.0 = "\<lparr>added = True, current = True, resumeToken = None\<rparr>"
         and msg = "\<lparr>targetChange =
                       Some \<lparr>targetIds = Some [1], targetChangeType = Some ''RESET'',
                             tc_resumeToken = None\<rparr>,
                      documentChange = None, documentRemove = None,
                      documentDelete = None, filter_ = None\<rparr>"
         and cs = "[]" and p = "''p''" and c = newConnection]
    by (simp add: defs)
  show ?thesis by (intro conjI) (fact a b c d e f)+
qed

text \<open>
  Claim C2 as stated has a targetChange without identifiers apply the transition to every
  registered target. A \<open>CURRENT\<close> broadcast over three targets of which the second is not
  added makes the first current, throws at the second and never reaches the third, which
  stays not current although \<open>onCurrent\<close> would succeed on it.
\<close>

theorem targetChange_resolution_counterexample:
  "onTargetChange \<lparr>targetIds = None, targetChangeType = Some ''CURRENT'', tc_resumeToken = None\<rparr>
     \<lparr>projectId = ''p'', stream = Some 0, closed = False,
      targets = [(1, \<lparr>added = True, current = False, resumeToken = None\<rparr>),
                 (2, \<lparr>added = False, current = False, resumeToken = None\<rparr>),
                 (3, \<lparr>added = True, current = False, resumeToken = None\<rparr>)]\<rparr> =
     (Thrown (TargetStateError ''onCurrent() invoked when not added.''),
      \<lparr>projectId = ''p'', stream = Some 0, closed = False,
       targets = [(1, \<lparr>added = True, current = True, resumeToken = None\<rparr>),
                  (2, \<lparr>added = False, current = False, resumeToken = None\<rparr>),
                  (3, \<lparr>added = True, current = False, resumeToken = None\<rparr>)]\<rparr>) \<and>
   onCurrent \<lparr>added = True, current = False, resumeToken = None\<rparr> =
     (Returned, \<lparr>added = True, current = True, resumeToken = None\<rparr>)"
  by (simp add: onTargetChange_def targetStatesForTargetChange_def applyTargetChange_def
        onCurrent_def)

text \<open>
  Claim C4. The \<^verbatim>\<open>default\<close> branch that rejects an unrecognised change type sits inside
  the loop over the resolved targets. With no target registered and no identifier listed,
  the loop body never runs: a targetChange of type \<open>UNKNOWN\<close>, or one without a type, is
  accepted without an error, also right after \<open>open()\<close>. With one target registered the
  same message throws.
\<close>

theorem unknown_changeType_without_targets:
  "onTargetChange
     \<lparr>targetIds = None, targetChangeType = Some ''UNKNOWN'', tc_resumeToken = None\<rparr>
     (newWatchStream ''p'') = (Returned, newWatchStream ''p'') \<and>
   perform (Message \<lparr>targetChange =
              Some \<lparr>targetIds = None, targetChangeType = None, tc_resumeToken = None\<rparr>,
            documentChange = None, documentRemove = None, documentDelete = None,
            filter_ = None\<rparr>)
     (snd (ws_open None (newWatchStream ''p'', newConnection))) =
     (Returned, snd (ws_open None (newWatchStream ''p'', newConnection))) \<and>
   fst (onTargetChange
     \<lparr>targetIds = None, targetChangeType = Some ''UNKNOWN'', tc_resumeToken = None\<rparr>
     \<lparr>projectId = ''p'', stream = Some 0, closed = False, targets = [(1, newTargetState)]\<rparr>) =
     Thrown (WatchError [Text ''unknown targetChangeType: '', Text ''UNKNOWN''])"
  by (simp add: onTargetChange_def targetStatesForTargetChange_def applyTargetChange_def
        onMessageReceived_def newWatchStream_def newConnection_def ws_open_def Let_def)


lemma resolveTargetIds_Inr:
  "resolveTargetIds T ids = Inr rs \<Longrightarrow> rs = ids \<and> (\<forall>i \<in> set ids. map_of T i \<noteq> None)"
  by (induction ids arbitrary: rs) (auto split: option.splits sum.splits)

lemma applyTargetChange_unknown:
  "targetChangeType tc \<notin>
     {Some ''ADD'', Some ''REMOVE'', Some ''CURRENT'', Some ''RESET'', Some ''NO_CHANGE''} \<Longrightarrow>
   \<exists>m. applyTargetChange tc s = (Thrown (WatchError m), s)"
  by (cases "targetChangeType tc") (simp_all add: applyTargetChange_def)

lemma unknown_changeType_with_target:
  assumes unk: "targetChangeType tc \<notin>
     {Some ''ADD'', Some ''REMOVE'', Some ''CURRENT'', Some ''RESET'', Some ''NO_CHANGE''}"
    and res: "targetStatesForTargetChange tc ws = Inr (r # rs)"
  shows "\<exists>m. onTargetChange tc ws = (Thrown (WatchError m), ws)"
proof -
  define ids0 where "ids0 = (case targetIds tc of None \<Rightarrow> [] | Some ids \<Rightarrow> ids)"
  have ts: "targetStatesForTargetChange tc ws =
      (case resolveTargetIds (targets ws) ids0 of
         Inl e \<Rightarrow> Inl e
       | Inr xs \<Rightarrow> if length xs > 0 then Inr xs else Inr (map fst (targets ws)))"
    unfolding ids0_def targetStatesForTargetChange_def ..
  have "map_of (targets ws) r \<noteq> None"
  proof (cases "resolveTargetIds (targets ws) ids0")
    case (Inl e)
    with res ts show ?thesis by simp
  next
    case (Inr xs)
    note k = resolveTargetIds_Inr [OF Inr]
    show ?thesis
    proof (cases xs)
      case Nil
      with Inr res ts have "map fst (targets ws) = r # rs" by simp
      then obtain s T where "targets ws = (r, s) # T" by (cases "targets ws") auto
      then show ?thesis by simp
    next
      case (Cons y ys)
      with Inr res ts have "xs = r # rs" by simp
      with k have "ids0 = r # rs" by simp
      then have "r \<in> set ids0" by simp
      with k show ?thesis by blast
    qed
  qed
  then obtain s where s: "map_of (targets ws) r = Some s" by auto
  from applyTargetChange_unknown [OF unk, of s]
  obtain m where m: "applyTargetChange tc s = (Thrown (WatchError m), s)" ..
  have "AList.update r s (targets ws) = targets ws" using s by (rule update_triv)
  with res s m have "onTargetChange tc ws = (Thrown (WatchError m), ws)"
    by (simp add: onTargetChange_def)
  then show ?thesis ..
qed

lemma any_changeType_without_targets:
  "targets ws = [] \<Longrightarrow> targetIds tc = None \<or> targetIds tc = Some [] \<Longrightarrow>
   onTargetChange tc ws = (Returned, ws)"
  by (auto simp: onTargetChange_def targetStatesForTargetChange_def)

section \<open>Properties of BloomFilter\<close>

text \<open>
  The probing loop returns true exactly when every probed bit is set.
\<close>

lemma probesFrom_iff:
  "probesFrom bf h1 h2 i n \<longleftrightarrow> (\<forall>j < n. isBitSet bf (bitIndex bf h1 h2 (i + j)))"
proof (induction n arbitrary: i)
  case 0
  show ?case by simp
next
  case (Suc n)
  have "(\<forall>j < Suc n. isBitSet bf (bitIndex bf h1 h2 (i + j))) \<longleftrightarrow>
        isBitSet bf (bitIndex bf h1 h2 i) \<and> (\<forall>j < n. isBitSet bf (bitIndex bf h1 h2 (Suc i + j)))"
    by (auto simp: less_Suc_eq_0_disj)
  with Suc.IH [of "Suc i"] show ?case by simp
qed

text \<open>
  The expectations of \<^verbatim>\<open>bloom_filter.test.ts\<close> on the constructor: the empty filter, the
  bit counts for one byte and the paddings 0 to 7, and the six rejected argument triples.
\<close>

lemma newBloomFilter_tests:
  "map_sum id bitCount (newBloomFilter [] 0 0) = Inr 0 \<and>
   newBloomFilter [] 1 0 = Inl (InvalidPadding 1) \<and>
   newBloomFilter [] 0 (- 1) = Inl (InvalidHashCount (- 1)) \<and>
   map (\<lambda>p. map_sum id bitCount (newBloomFilter [0] p 1)) [0, 1, 2, 3, 4, 5, 6, 7] =
     map Inr [8, 7, 6, 5, 4, 3, 2, 1] \<and>
   newBloomFilter [0] (- 1) 1 = Inl (InvalidPadding (- 1)) \<and>
   newBloomFilter [0] 8 1 = Inl (InvalidPadding 8) \<and>
   newBloomFilter [0] 1 (- 1) = Inl (InvalidHashCount (- 1)) \<and>
   newBloomFilter [0] 1 0 = Inl (InvalidHashCount 0)"
  by (simp add: newBloomFilter_def)

text \<open>
  Claim C5, as amended. Construction fails with a padding-specific error exactly when the
  padding is invalid (empty bitmap and padding other than 0, or non-empty bitmap and padding
  outside 0..7). It fails with a hash-count-specific error exactly when the hash count is
  invalid (negative, or 0 with a non-empty bitmap) and the padding is valid: the padding is
  validated first, so when both are invalid the error is the padding one. Each error names
  the offending value. A failed construction yields an error and no instance; a
  successful one, which is the case exactly when neither is invalid, yields the instance
  with the given fields and the derived bit count.
\<close>

theorem BloomFilter_validation:
  "(isInvalidPadding (newBloomFilter bs pad hc) \<longleftrightarrow>
      length bs = 0 \<and> pad \<noteq> 0 \<or> length bs > 0 \<and> (pad < 0 \<or> 7 < pad)) \<and>
   (isInvalidHashCount (newBloomFilter bs pad hc) \<longleftrightarrow>
      (hc < 0 \<or> length bs > 0 \<and> hc = 0) \<and>
      \<not> (length bs = 0 \<and> pad \<noteq> 0 \<or> length bs > 0 \<and> (pad < 0 \<or> 7 < pad))) \<and>
   (isInvalidPadding (newBloomFilter bs pad hc) \<longrightarrow>
      newBloomFilter bs pad hc = Inl (InvalidPadding pad)) \<and>
   (isInvalidHashCount (newBloomFilter bs pad hc) \<longrightarrow>
      newBloomFilter bs pad hc = Inl (InvalidHashCount hc)) \<and>
   ((\<exists>e. newBloomFilter bs pad hc = Inl e) \<longleftrightarrow>
      isInvalidPadding (newBloomFilter bs pad hc) \<or>
      isInvalidHashCount (newBloomFilter bs pad hc)) \<and>
   ((\<exists>bf. newBloomFilter bs pad hc = Inr bf) \<longleftrightarrow>
      \<not> (length bs = 0 \<and> pad \<noteq> 0 \<or> length bs > 0 \<and> (pad < 0 \<or> 7 < pad)) \<and>
      \<not> (hc < 0 \<or> length bs > 0 \<and> hc = 0)) \<and>
   (\<not> (length bs = 0 \<and> pad \<noteq> 0 \<or> length bs > 0 \<and> (pad < 0 \<or> 7 < pad)) \<and>
    \<not> (hc < 0 \<or> length bs > 0 \<and> hc = 0) \<longrightarrow>
      newBloomFilter bs pad hc =
        Inr \<lparr>bits = bs, padding = pad, hashCount = hc,
             bitCount = (if length bs = 0 then 0 else int (length bs) * 8 - pad)\<rparr>)"
proof -
  define P where "P \<longleftrightarrow> length bs = 0 \<and> pad \<noteq> 0 \<or> length bs > 0 \<and> (pad < 0 \<or> 7 < pad)"
  define H where "H \<longleftrightarrow> hc < 0 \<or> length bs > 0 \<and> hc = 0"
  define ok where "ok = \<lparr>bits = bs, padding = pad, hashCount = hc,
             bitCount = (if length bs = 0 then 0 else int (length bs) * 8 - pad)\<rparr>"
  have r: "newBloomFilter bs pad hc =
      (if P then Inl (InvalidPadding pad) else if H then Inl (InvalidHashCount hc) else Inr ok)"
  proof (cases "bs = []")
    case True
    then show ?thesis by (simp add: newBloomFilter_def P_def H_def ok_def)
  next
    case False
    have "hc < 1 \<longleftrightarrow> hc < 0 \<or> hc = 0" by arith
    with False show ?thesis by (simp add: newBloomFilter_def P_def H_def ok_def)
  qed
  have 1: "isInvalidPadding (newBloomFilter bs pad hc) \<longleftrightarrow> P" by (simp add: r)
  have 2: "isInvalidHashCount (newBloomFilter bs pad hc) \<longleftrightarrow> H \<and> \<not> P" by (simp add: r)
  have 3: "isInvalidPadding (newBloomFilter bs pad hc) \<longrightarrow>
      newBloomFilter bs pad hc = Inl (InvalidPadding pad)" by (simp add: r)
  have 4: "isInvalidHashCount (newBloomFilter bs pad hc) \<longrightarrow>
      newBloomFilter bs pad hc = Inl (InvalidHashCount hc)" by (simp add: r)
  have 5: "(\<exists>e. newBloomFilter bs pad hc = Inl e) \<longleftrightarrow>
      isInvalidPadding (newBloomFilter bs pad hc) \<or>
      isInvalidHashCount (newBloomFilter bs pad hc)" by (simp add: r)
  have 6: "(\<exists>bf. newBloomFilter bs pad hc = Inr bf) \<longleftrightarrow> \<not> P \<and> \<not> H" by (simp add: r)
  have 7: "\<not> P \<and> \<not> H \<longrightarrow> newBloomFilter bs pad hc = Inr ok" by (simp add: r)
  from 1 2 3 4 5 6 7 show ?thesis unfolding P_def H_def ok_def by blast
qed

theorem BloomFilter_validation_witness:
  "newBloomFilter [] 1 0 = Inl (InvalidPadding 1) \<and>
   newBloomFilter [0] 8 1 = Inl (InvalidPadding 8) \<and>
   newBloomFilter [] 1 (- 1) = Inl (InvalidPadding 1) \<and>
   newBloomFilter [0] 8 0 = Inl (InvalidPadding 8) \<and>
   newBloomFilter [] 0 (- 1) = Inl (InvalidHashCount (- 1)) \<and>
   newBloomFilter [0] 1 0 = Inl (InvalidHashCount 0) \<and>
   newBloomFilter [237, 5] 5 8 =
     Inr \<lparr>bits = [237, 5], padding = 5, hashCount = 8, bitCount = 11\<rparr>"
proof -
  have a: "newBloomFilter [] 1 0 = Inl (InvalidPadding 1)"
    using BloomFilter_validation [of "[]" 1 0] by (simp add: newBloomFilter_def)
  have b: "newBloomFilter [0] 8 1 = Inl (InvalidPadding 8)"
    using BloomFilter_validation [of "[0]" 8 1] by (simp add: newBloomFilter_def)
  have c: "newBloomFilter [] 0 (- 1) = Inl (InvalidHashCount (- 1))"
    using BloomFilter_validation [of "[]" 0 "- 1"] by (simp add: newBloomFilter_def)
  have d: "newBloomFilter [0] 1 0 = Inl (InvalidHashCount 0)"
    using BloomFilter_validation [of "[0]" 1 0] by (simp add: newBloomFilter_def)
  have e: "newBloomFilter [237, 5] 5 8 =
     Inr \<lparr>bits = [237, 5], padding = 5, hashCount = 8, bitCount = 11\<rparr>"
    using BloomFilter_validation [of "[237, 5]" 5 8] by (simp add: newBloomFilter_def)
  have f: "newBloomFilter [] 1 (- 1) = Inl (InvalidPadding 1)"
    using BloomFilter_validation [of "[]" 1 "- 1"] by (simp add: newBloomFilter_def)
  have g: "newBloomFilter [0] 8 0 = Inl (InvalidPadding 8)"
    using BloomFilter_validation [of "[0]" 8 0] by (simp add: newBloomFilter_def)
  from a b c d e f g show ?thesis by blast
qed

text \<open>
  Claim C5 as stated asks for a hash-count-specific error exactly when the hash count is
  invalid. A construction raises one error: with an empty bitmap, padding 1 and hash count
  \<open>-1\<close> the hash count is invalid, and the error is the padding one.
\<close>

theorem BloomFilter_validation_counterexample:
  "length ([] :: 8 word list) = 0 \<and> (1 :: int) \<noteq> 0 \<and> (- 1 :: int) < 0 \<and>
   newBloomFilter [] 1 (- 1) = Inl (InvalidPadding 1) \<and>
   \<not> isInvalidHashCount (newBloomFilter [] 1 (- 1))"
  by (simp add: newBloomFilter_def)

text \<open>
  Claim C6. A BloomFilter constructed from an empty bitmap has bit count 0, and
  \<open>mightContain\<close> is false for every key, the empty string included, whatever the hash
  function.
\<close>

theorem empty_BloomFilter:
  "length bs = 0 \<Longrightarrow> newBloomFilter bs pad hc = Inr bf \<Longrightarrow>
   bitCount bf = 0 \<and> mightContain hash bf key = False \<and> mightContain hash bf [] = False"
  by (auto simp: newBloomFilter_def mightContain_def split: if_splits)

theorem empty_BloomFilter_witness:
  "length ([] :: 8 word list) = 0 \<and>
   newBloomFilter [] 0 0 = Inr \<lparr>bits = [], padding = 0, hashCount = 0, bitCount = 0\<rparr> \<and>
   bitCount \<lparr>bits = [], padding = 0, hashCount = 0, bitCount = 0\<rparr> = 0 \<and>
   mightContain (\<lambda>b. (0, 0)) \<lparr>bits = [], padding = 0, hashCount = 0, bitCount = 0\<rparr> ''abc'' = False \<and>
   mightContain (\<lambda>b. (0, 0)) \<lparr>bits = [], padding = 0, hashCount = 0, bitCount = 0\<rparr> [] = False"
proof -
  have n: "newBloomFilter [] 0 0 = Inr \<lparr>bits = [], padding = 0, hashCount = 0, bitCount = 0\<rparr>"
    by (simp add: newBloomFilter_def)
  have l: "length ([] :: 8 word list) = 0" by simp
  from empty_BloomFilter [OF l n, of "\<lambda>b. (0, 0)" "''abc''"] n show ?thesis by simp
qed

end
